theory Spec2Isabelle
  imports Main "HOL-Library.Product_Lexorder"
begin

unbundle bit_operations_syntax

section \<open>Errors\<close>

text \<open>
  Every exception the modelled code raises is a value. The first six are the error kinds of
  the IPAM engine; the others are exceptions of Python and of the netaddr and database
  libraries that the engine's \<open>except Exception\<close> handlers catch.
\<close>

datatype error =
    MacAddressGenerationFailure
  | IpAddressGenerationFailure
  | IpAddressInUse
  | IPAddressRetryableFailure
  | IPAddressPolicyRetryableFailure
  | IPAddressNotInSubnet
  | AddrFormatError
  | AddrConversionError
  | TypeError
  | ValueError
  | DBDuplicateEntry
  | StopIteration

section \<open>Addresses and networks (netaddr)\<close>

text \<open>
  netaddr is a library, not code of the repository. The few operations the engine calls are
  written out on the integer value of an address: \<open>netaddr.IPAddress\<close> is a version and a
  value, \<open>netaddr.IPNetwork\<close> is a version, the value of the address as written in the cidr
  and a prefix length.
\<close>

record ipaddr =
  addr_version :: int
  addr_value :: int

record ipnet =
  net_version :: int
  net_value :: int
  net_prefixlen :: nat

definition ip_width :: "int \<Rightarrow> nat" where
  "ip_width v = (if v = 4 then 32 else 128)"

text \<open>\<open>netaddr.IPAddress(n)\<close> for an integer \<open>n\<close>: the version follows the magnitude.\<close>

definition IPAddress :: "int \<Rightarrow> error + ipaddr" where
  "IPAddress n =
     (if 0 \<le> n \<and> n < 2 ^ 32 then Inr \<lparr>addr_version = 4, addr_value = n\<rparr>
      else if 0 \<le> n \<and> n < 2 ^ 128 then Inr \<lparr>addr_version = 6, addr_value = n\<rparr>
      else Inl AddrFormatError)"

text \<open>\<open>.ipv4()\<close>: an IPv4-compatible or IPv4-mapped v6 address converts, any other raises.\<close>

definition ipv4 :: "ipaddr \<Rightarrow> error + ipaddr" where
  "ipv4 a =
     (if addr_version a = 4 then Inr a
      else if 0 \<le> addr_value a \<and> addr_value a < 2 ^ 32
        then Inr \<lparr>addr_version = 4, addr_value = addr_value a\<rparr>
      else if 0xffff00000000 \<le> addr_value a \<and> addr_value a \<le> 0xffffffffffff
        then Inr \<lparr>addr_version = 4, addr_value = addr_value a - 0xffff00000000\<rparr>
      else Inl AddrConversionError)"

text \<open>\<open>.ipv6()\<close>: a v4 address becomes the IPv4-mapped v6 address.\<close>

definition ipv6 :: "ipaddr \<Rightarrow> ipaddr" where
  "ipv6 a =
     (if addr_version a = 6 then a
      else \<lparr>addr_version = 6, addr_value = 0xffff00000000 + addr_value a\<rparr>)"

text \<open>Truth value of an optional address: \<open>None\<close> and the address of value 0 are false.\<close>

definition truthy_ip :: "ipaddr option \<Rightarrow> bool" where
  "truthy_ip x = (case x of None \<Rightarrow> False | Some a \<Rightarrow> addr_value a \<noteq> 0)"

definition net_size :: "ipnet \<Rightarrow> int" where
  "net_size n = 2 ^ (ip_width (net_version n) - net_prefixlen n)"

definition network_base :: "ipnet \<Rightarrow> int" where
  "network_base n =
     push_bit (ip_width (net_version n) - net_prefixlen n)
       (drop_bit (ip_width (net_version n) - net_prefixlen n) (net_value n))"

text \<open>\<open>a in net\<close>: same version and same network bits.\<close>

definition in_net :: "ipaddr \<Rightarrow> ipnet \<Rightarrow> bool" where
  "in_net a n =
     (addr_version a = net_version n \<and>
      drop_bit (ip_width (net_version n) - net_prefixlen n) (addr_value a) =
      drop_bit (ip_width (net_version n) - net_prefixlen n) (net_value n))"

text \<open>\<open>a in netaddr.IPSet(cidrs)\<close>.\<close>

definition in_ipset :: "ipaddr \<Rightarrow> ipnet list \<Rightarrow> bool" where
  "in_ipset a cs = (\<exists>c \<in> set cs. in_net a c)"

section \<open>The store\<close>

text \<open>
  The rows of \<open>quark_subnets\<close>, \<open>quark_ip_addresses\<close>, \<open>quark_mac_address_ranges\<close> and
  \<open>quark_mac_addresses\<close> with the columns the engine reads and writes. A table is the list of
  its rows; SQL \<open>NULL\<close> is \<open>None\<close>. Times are seconds.
\<close>

record ip_policy =
  ip_policy_size :: int
  policy_exclude :: "ipnet list"

record subnet =
  s_id :: string
  s_network_id :: string
  s_cidr :: ipnet
  s_first_ip :: int
  s_last_ip :: int
  s_ip_version :: int
  s_next_auto_assign_ip :: int
  s_segment_id :: "string option"
  s_do_not_use :: bool
  s_ip_policy :: "ip_policy option"

record ip_address =
  a_address :: int
  a_version :: int
  a_subnet_id :: "string option"
  a_network_id :: string
  a_used_by_tenant_id :: string
  a_allocated_at :: "int option"
  a_deallocated :: bool
  a_deallocated_at :: "int option"
  a_address_type :: "string option"
  a_transaction_id :: "nat option"

record mac_address_range =
  r_id :: string
  r_first_address :: int
  r_last_address :: int
  r_next_auto_assign_mac :: int
  r_do_not_use :: bool

record mac_address =
  m_address :: int
  m_mac_address_range_id :: "string option"
  m_tenant_id :: string
  m_deallocated :: bool
  m_deallocated_at :: "int option"
  m_transaction_id :: "nat option"

text \<open>A condition of a \<open>WHERE\<close> clause on \<open>quark_ip_addresses\<close>, as \<open>_model_query\<close> builds it.\<close>

datatype ip_cond =
    NetworkIdIn "string list"
  | DeallocatedAtLe int
  | DeallocatedEq bool
  | AddressIn "int list"
  | VersionIn "int list"
  | SubnetIdIn "string list"
  | TransactionIdEq nat
  | UsedByTenantIdIn "string list"

text \<open>
  Besides its tables the store has the number of transaction ids given out, its clock, and
  two things that are the database's and not the program's: \<open>ip_claims\<close>, the conditions of
  the limited updates it received on \<open>quark_ip_addresses\<close>, in the order received; and
  \<open>row_order\<close>, the ids of the subnets in the order in which it produces their rows before
  the \<open>ORDER BY\<close> of a query is applied (rows it does not list come last, in the order of
  the table), which decides the order of rows that agree on every sort key.
\<close>

record db =
  quark_subnets :: "subnet list"
  quark_ip_addresses :: "ip_address list"
  quark_mac_address_ranges :: "mac_address_range list"
  quark_mac_addresses :: "mac_address list"
  transactions :: nat
  utcnow :: int
  ip_claims :: "ip_cond list list"
  row_order :: "string list"

record request_context =
  tenant_id :: string
  is_admin :: bool

definition elevated :: "request_context \<Rightarrow> request_context" where
  "elevated ctx = ctx\<lparr>is_admin := True\<rparr>"

section \<open>The subnet cursor\<close>

text \<open>
  \<open>subnet_update_next_auto_assign_ip\<close> and \<open>subnet_update_set_full\<close> (db/api.py) are bulk
  updates \<open>UPDATE quark_subnets SET ... WHERE id = ? AND next_auto_assign_ip != -1\<close>; each
  returns the number of rows it matched.
\<close>

definition cursor_open :: "subnet \<Rightarrow> subnet \<Rightarrow> bool" where
  "cursor_open subnet row = (s_id row = s_id subnet \<and> s_next_auto_assign_ip row \<noteq> -1)"

definition subnet_update_next_auto_assign_ip :: "db \<Rightarrow> subnet \<Rightarrow> nat \<times> db" where
  "subnet_update_next_auto_assign_ip d subnet =
     (length (filter (cursor_open subnet) (quark_subnets d)),
      d\<lparr>quark_subnets :=
          map (\<lambda>row. if cursor_open subnet row
                      then row\<lparr>s_next_auto_assign_ip := s_next_auto_assign_ip row + 1\<rparr>
                      else row)
            (quark_subnets d)\<rparr>)"

definition subnet_update_set_full :: "db \<Rightarrow> subnet \<Rightarrow> nat \<times> db" where
  "subnet_update_set_full d subnet =
     (length (filter (cursor_open subnet) (quark_subnets d)),
      d\<lparr>quark_subnets :=
          map (\<lambda>row. if cursor_open subnet row
                      then row\<lparr>s_next_auto_assign_ip := -1\<rparr>
                      else row)
            (quark_subnets d)\<rparr>)"

text \<open>The two updates as the steps of a subnet's cursor, and runs of such steps.\<close>

datatype cursor_update = AutoAssign | SetFull

fun cursor_step :: "cursor_update \<Rightarrow> subnet \<Rightarrow> db \<Rightarrow> db" where
  "cursor_step AutoAssign subnet d = snd (subnet_update_next_auto_assign_ip d subnet)"
| "cursor_step SetFull subnet d = snd (subnet_update_set_full d subnet)"

text \<open>The cursor of the \<open>i\<close>-th row of the subnet table.\<close>

definition cursor :: "db \<Rightarrow> nat \<Rightarrow> int" where
  "cursor d i = s_next_auto_assign_ip (quark_subnets d ! i)"

text \<open>The cursor values of row \<open>i\<close> along a run of updates, the starting value first.\<close>

fun cursor_trace :: "nat \<Rightarrow> (cursor_update \<times> subnet) list \<Rightarrow> db \<Rightarrow> int list" where
  "cursor_trace i [] d = [cursor d i]"
| "cursor_trace i ((u, subnet) # us) d = cursor d i # cursor_trace i us (cursor_step u subnet d)"

section \<open>Address generators\<close>

definition MAGIC_INT :: int where
  "MAGIC_INT = 144115188075855872"

text \<open>
  \<open>netaddr.EUI(mac).eui64().value\<close> for the integer \<open>mac\<close>: a 48-bit value gets \<open>ff:fe\<close>
  between its third and fourth bytes, a 64-bit value is an EUI-64 already.
\<close>

definition eui64 :: "int \<Rightarrow> error + int" where
  "eui64 mac =
     (if 0 \<le> mac \<and> mac \<le> 0xffffffffffff
        then Inr (push_bit 40 (drop_bit 24 mac) OR 0xfffe000000 OR (mac AND 0xffffff))
      else if 0 \<le> mac \<and> mac \<le> 0xffffffffffffffff then Inr mac
      else Inl AddrFormatError)"

definition rfc2462_ip :: "int \<Rightarrow> ipnet \<Rightarrow> error + int" where
  "rfc2462_ip mac cidr =
     (case eui64 mac of
        Inl e \<Rightarrow> Inl e
      | Inr e64 \<Rightarrow> Inr ((net_value cidr + e64) XOR MAGIC_INT))"

text \<open>
  Python's \<open>random\<close> module is one generator for the whole process: \<open>random.seed\<close> replaces
  its state and \<open>random.getrandbits\<close> reads and advances it. The library is a parameter
  (its state type and its two functions), and the state is passed explicitly.
  \<open>port_id\<close> stands for \<open>int(uuid.UUID(port_id))\<close>.
\<close>

record 'g random =
  seed :: "int \<Rightarrow> 'g"
  getrandbits64 :: "'g \<Rightarrow> int \<times> 'g"

text \<open>
  A generator object is the frame it is suspended in. \<open>rfc3041_ip\<close> seeds on its first
  \<open>next\<close> and then only draws.
\<close>

datatype rfc3041_frame = R_Start | R_Loop int

fun rfc3041_ip_next ::
  "'g random \<Rightarrow> int \<Rightarrow> ipnet \<Rightarrow> rfc3041_frame \<Rightarrow> 'g \<Rightarrow> int \<times> rfc3041_frame \<times> 'g" where
  "rfc3041_ip_next rnd port_id cidr R_Start g =
     (case getrandbits64 rnd (seed rnd port_id) of
        (r, g') \<Rightarrow> ((net_value cidr + r) XOR MAGIC_INT, R_Loop (net_value cidr), g'))"
| "rfc3041_ip_next rnd port_id cidr (R_Loop int_val) g =
     (case getrandbits64 rnd g of
        (r, g') \<Rightarrow> ((int_val + r) XOR MAGIC_INT, R_Loop int_val, g'))"

datatype generate_v6_frame = G_Start | G_Loop rfc3041_frame | G_Finished

fun generate_v6_next ::
  "'g random \<Rightarrow> int option \<Rightarrow> int \<Rightarrow> ipnet \<Rightarrow> generate_v6_frame \<Rightarrow> 'g \<Rightarrow>
     (error + int) \<times> generate_v6_frame \<times> 'g" where
  "generate_v6_next rnd (Some mac) port_id cidr G_Start g =
     (case rfc2462_ip mac cidr of
        Inl e \<Rightarrow> (Inl e, G_Finished, g)
      | Inr v \<Rightarrow> (Inr v, G_Loop R_Start, g))"
| "generate_v6_next rnd None port_id cidr G_Start g =
     (case rfc3041_ip_next rnd port_id cidr R_Start g of
        (v, f, g') \<Rightarrow> (Inr v, G_Loop f, g'))"
| "generate_v6_next rnd mac port_id cidr (G_Loop f) g =
     (case rfc3041_ip_next rnd port_id cidr f g of
        (v, f', g') \<Rightarrow> (Inr v, G_Loop f', g'))"
| "generate_v6_next rnd mac port_id cidr G_Finished g = (Inl StopIteration, G_Finished, g)"

text \<open>
  Two generators for the same arguments, advanced in the order of a schedule
  (\<open>True\<close>: the first generator's \<open>next\<close>, \<open>False\<close>: the second's); the result is what
  each of them yielded.
\<close>

fun run_two ::
  "'g random \<Rightarrow> int option \<Rightarrow> int \<Rightarrow> ipnet \<Rightarrow> bool list \<Rightarrow>
     generate_v6_frame \<Rightarrow> generate_v6_frame \<Rightarrow> 'g \<Rightarrow> (error + int) list \<times> (error + int) list" where
  "run_two rnd mac port_id cidr [] fa fb g = ([], [])"
| "run_two rnd mac port_id cidr (b # bs) fa fb g =
     (if b then
        (case generate_v6_next rnd mac port_id cidr fa g of
           (v, fa', g') \<Rightarrow>
             (case run_two rnd mac port_id cidr bs fa' fb g' of (xs, ys) \<Rightarrow> (v # xs, ys)))
      else
        (case generate_v6_next rnd mac port_id cidr fb g of
           (v, fb', g') \<Rightarrow>
             (case run_two rnd mac port_id cidr bs fa fb' g' of (xs, ys) \<Rightarrow> (xs, v # ys))))"

text \<open>A stand-in for the library's generator, to run the model: a counter.\<close>

definition counter_random :: "int random" where
  "counter_random = \<lparr>seed = (\<lambda>s. s), getrandbits64 = (\<lambda>g. (g mod 2 ^ 64, g + 1))\<rparr>"

section \<open>Configuration and call state\<close>

record conf =
  v6_allocation_attempts :: int
  mac_address_retry_max :: nat
  ip_address_retry_max :: nat

text \<open>
  The keyword arguments the engine passes along: \<open>address_type\<close> (\<open>None\<close>: not given) and
  \<open>mac_address\<close> (the MAC row of the port, \<open>None\<close>: not given). The \<open>ipam_log\<close> argument
  that the \<open>ipam_logged\<close> decorator adds is the \<open>entries\<close> field of the state below.
\<close>

record kwargs =
  kw_address_type :: "string option"
  kw_mac_address :: "mac_address option"

definition FIXED :: string where
  "FIXED = ''fixed''"

definition get_address_type :: "kwargs \<Rightarrow> string option" where
  "get_address_type kw = (case kw_address_type kw of None \<Rightarrow> Some FIXED | Some t \<Rightarrow> Some t)"

text \<open>
  What a call works on: the store, the caller's list \<open>new_addresses\<close> that the call
  extends in place, the entries of its \<open>QuarkIPAMLog\<close> (name and success flag of each
  attempt), the addresses handed to the notifier, and the state of the process's random
  generator.
\<close>

record 'g engine =
  store :: db
  new_addresses :: "ip_address list"
  entries :: "(string \<times> bool) list"
  notifications :: "ip_address list"
  random_state :: 'g

definition make_entry :: "string \<Rightarrow> 'g engine \<Rightarrow> 'g engine" where
  "make_entry fx_name st = st\<lparr>entries := entries st @ [(fx_name, True)]\<rparr>"

text \<open>\<open>attempt.failed()\<close> on the entry made last.\<close>

definition attempt_failed :: "'g engine \<Rightarrow> 'g engine" where
  "attempt_failed st =
     (case rev (entries st) of
        [] \<Rightarrow> st
      | e # es \<Rightarrow> st\<lparr>entries := rev es @ [(fst e, False)]\<rparr>)"

section \<open>Queries and the claim primitive\<close>

text \<open>
  \<open>_model_query\<close> turns keyword filters into conditions on a row. The filters the engine
  passes for the IPAddress model (\<open>None\<close>: key absent or value \<open>None\<close>, both are skipped):
\<close>

record ip_filters =
  f_network_id :: "string option"
  f_reuse_after :: "int option"
  f_deallocated :: "bool option"
  f_ip_address :: "ipaddr option"
  f_version :: "int list option"
  f_subnet_id :: "string list option"
  f_transaction_id :: "nat option"

definition no_ip_filters :: ip_filters where
  "no_ip_filters =
     \<lparr>f_network_id = None, f_reuse_after = None, f_deallocated = None, f_ip_address = None,
      f_version = None, f_subnet_id = None, f_transaction_id = None\<rparr>"

text \<open>\<open>_listify\<close> on a string: a false (empty) value is left as it is, and \<open>IN\<close> over it is empty.\<close>

definition listify :: "string \<Rightarrow> string list" where
  "listify s = (if s = [] then [] else [s])"

text \<open>
  \<open>_listify\<close> followed by \<open>_model_query\<close> for the IPAddress model. A false \<open>ip_address\<close>
  that is not \<open>None\<close> is not made a list, and iterating over it raises. The tenant condition
  is added for a context that is not admin.
\<close>

definition model_query_IPAddress :: "request_context \<Rightarrow> int \<Rightarrow> ip_filters \<Rightarrow> error + ip_cond list" where
  "model_query_IPAddress ctx now filters =
     (if f_ip_address filters \<noteq> None \<and> \<not> truthy_ip (f_ip_address filters) then Inl TypeError
      else Inr
        ((case f_network_id filters of None \<Rightarrow> [] | Some n \<Rightarrow> [NetworkIdIn (listify n)]) @
         (case f_reuse_after filters of None \<Rightarrow> [] | Some s \<Rightarrow> [DeallocatedAtLe (now - s)]) @
         (case f_deallocated filters of None \<Rightarrow> [] | Some b \<Rightarrow> [DeallocatedEq b]) @
         (case f_ip_address filters of None \<Rightarrow> [] | Some a \<Rightarrow> [AddressIn [addr_value (ipv6 a)]]) @
         (case f_version filters of None \<Rightarrow> [] | Some vs \<Rightarrow> [VersionIn vs]) @
         (case f_subnet_id filters of None \<Rightarrow> [] | Some ss \<Rightarrow> [SubnetIdIn ss]) @
         (case f_transaction_id filters of None \<Rightarrow> [] | Some t \<Rightarrow> [TransactionIdEq t]) @
         (if is_admin ctx then [] else [UsedByTenantIdIn [tenant_id ctx]])))"

fun ip_cond_holds :: "ip_cond \<Rightarrow> ip_address \<Rightarrow> bool" where
  "ip_cond_holds (NetworkIdIn ns) row = (a_network_id row \<in> set ns)"
| "ip_cond_holds (DeallocatedAtLe t) row =
     (case a_deallocated_at row of None \<Rightarrow> False | Some at \<Rightarrow> at \<le> t)"
| "ip_cond_holds (DeallocatedEq b) row = (a_deallocated row = b)"
| "ip_cond_holds (AddressIn vs) row = (a_address row \<in> set vs)"
| "ip_cond_holds (VersionIn vs) row = (a_version row \<in> set vs)"
| "ip_cond_holds (SubnetIdIn ss) row =
     (case a_subnet_id row of None \<Rightarrow> False | Some s \<Rightarrow> s \<in> set ss)"
| "ip_cond_holds (TransactionIdEq t) row = (a_transaction_id row = Some t)"
| "ip_cond_holds (UsedByTenantIdIn ts) row = (a_used_by_tenant_id row \<in> set ts)"

definition ip_matches :: "ip_cond list \<Rightarrow> ip_address \<Rightarrow> bool" where
  "ip_matches conds row = list_all (\<lambda>c. ip_cond_holds c row) conds"

text \<open>
  Modelled from the spec: \<open>quark_sa.update\<close>, which \<open>ip_address_reallocate\<close> and
  \<open>mac_address_reallocate\<close> call with \<open>mysql_limit = 1\<close>, is not defined in
  db/sqlalchemy_adapter.py (the file defines \<open>update_limit\<close>). The spec's claim primitive is
  \<open>UPDATE ... WHERE filters LIMIT 1\<close> returning the number of rows affected, 0 or 1; the row
  updated is the first one of the table that matches.
\<close>

fun update_limit :: "('r \<Rightarrow> bool) \<Rightarrow> ('r \<Rightarrow> 'r) \<Rightarrow> 'r list \<Rightarrow> nat \<times> 'r list" where
  "update_limit p values [] = (0, [])"
| "update_limit p values (r # rs) =
     (if p r then (1, values r # rs)
      else (case update_limit p values rs of (n, rs') \<Rightarrow> (n, r # rs')))"

definition transaction_create :: "db \<Rightarrow> nat \<times> db" where
  "transaction_create d = (Suc (transactions d), d\<lparr>transactions := Suc (transactions d)\<rparr>)"

definition ip_address_reallocate ::
  "db \<Rightarrow> request_context \<Rightarrow> (ip_address \<Rightarrow> ip_address) \<Rightarrow> ip_filters \<Rightarrow> error + bool \<times> db" where
  "ip_address_reallocate d ctx update_kwargs filters =
     (case model_query_IPAddress ctx (utcnow d) filters of
        Inl e \<Rightarrow> Inl e
      | Inr model_filters \<Rightarrow>
          (case update_limit (ip_matches model_filters) update_kwargs (quark_ip_addresses d) of
             (row_count, rows) \<Rightarrow>
               Inr (row_count = 1,
                    d\<lparr>quark_ip_addresses := rows, ip_claims := ip_claims d @ [model_filters]\<rparr>)))"

text \<open>
  Modelled from the spec: \<open>models.IPPolicy.get_ip_policy_cidrs\<close> (db/models.py is not among
  the sources) returns the set of the excluded cidrs of the subnet's policy, \<open>None\<close> without
  a policy.
\<close>

definition get_ip_policy_cidrs :: "subnet \<Rightarrow> ipnet list option" where
  "get_ip_policy_cidrs subnet = map_option policy_exclude (s_ip_policy subnet)"

text \<open>The \<open>subnet\<close> relationship of an address row.\<close>

definition subnet_of :: "db \<Rightarrow> ip_address \<Rightarrow> subnet option" where
  "subnet_of d address =
     (case a_subnet_id address of
        None \<Rightarrow> None
      | Some sid \<Rightarrow> find (\<lambda>s. s_id s = sid) (quark_subnets d))"

text \<open>
  The address of a row as \<open>ip_address_reallocate_find\<close> reads it back, and its policy
  check on that address.
\<close>

definition row_address :: "subnet \<Rightarrow> ip_address \<Rightarrow> error + ipaddr" where
  "row_address subnet address =
     (case IPAddress (a_address address) of
        Inl e \<Rightarrow> Inl e
      | Inr addr \<Rightarrow> if s_ip_version subnet = 4 then ipv4 addr else Inr (ipv6 addr))"

definition row_in_policy :: "subnet \<Rightarrow> ip_address \<Rightarrow> bool" where
  "row_in_policy subnet address =
     (case get_ip_policy_cidrs subnet of
        None \<Rightarrow> False
      | Some policy \<Rightarrow>
          (case row_address subnet address of
             Inl e \<Rightarrow> False
           | Inr addr \<Rightarrow> in_ipset addr policy))"

text \<open>\<open>ip_address_find\<close> with \<open>scope = ONE\<close>: the first row that matches.\<close>

definition ip_address_find :: "db \<Rightarrow> request_context \<Rightarrow> ip_filters \<Rightarrow> error + ip_address option" where
  "ip_address_find d ctx filters =
     (case model_query_IPAddress ctx (utcnow d) filters of
        Inl e \<Rightarrow> Inl e
      | Inr model_filters \<Rightarrow> Inr (find (ip_matches model_filters) (quark_ip_addresses d)))"

definition ip_address_reallocate_find ::
  "db \<Rightarrow> request_context \<Rightarrow> nat \<Rightarrow> error + ip_address option \<times> db" where
  "ip_address_reallocate_find d ctx transaction_id =
     (case ip_address_find d ctx (no_ip_filters\<lparr>f_transaction_id := Some transaction_id\<rparr>) of
        Inl e \<Rightarrow> Inl e
      | Inr found \<Rightarrow>
     (case found of
        None \<Rightarrow> Inr (None, d)
      | Some address \<Rightarrow>
     (case subnet_of d address of
        None \<Rightarrow> Inr (None, d)
      | Some subnet \<Rightarrow>
          if s_do_not_use subnet then Inr (None, d)
          else
     (case row_address subnet address of
        Inl e \<Rightarrow> Inl e
      | Inr addr \<Rightarrow>
          if (case get_ip_policy_cidrs subnet of None \<Rightarrow> False | Some policy \<Rightarrow> in_ipset addr policy)
            then Inr (None, d\<lparr>quark_ip_addresses := remove1 address (quark_ip_addresses d)\<rparr>)
          else if \<not> in_net addr (s_cidr subnet)
            then Inr (None, d\<lparr>quark_ip_addresses := remove1 address (quark_ip_addresses d)\<rparr>)
          else Inr (Some address, d)))))"

section \<open>IP reallocation\<close>

text \<open>The \<open>version\<close> argument: \<open>None\<close>, one version or a list of versions.\<close>

datatype py_version = VerNone | VerInt int | VerList "int list"

text \<open>\<open>version or [4, 6]\<close>\<close>

definition version_or_both :: "py_version \<Rightarrow> py_version" where
  "version_or_both version =
     (case version of
        VerNone \<Rightarrow> VerList [4, 6]
      | VerInt n \<Rightarrow> if n = 0 then VerList [4, 6] else VerInt n
      | VerList vs \<Rightarrow> if vs = [] then VerList [4, 6] else VerList vs)"

definition listify_version :: "py_version \<Rightarrow> int list option" where
  "listify_version version =
     (case version of VerNone \<Rightarrow> None | VerInt n \<Rightarrow> Some [n] | VerList vs \<Rightarrow> Some vs)"

definition truthy_str :: "string option \<Rightarrow> bool" where
  "truthy_str x = (case x of None \<Rightarrow> False | Some s \<Rightarrow> s \<noteq> [])"

text \<open>\<open>subnet_find(elevated, network_id=net_id, segment_id=segment_id)\<close>\<close>

definition subnet_find :: "db \<Rightarrow> string \<Rightarrow> string \<Rightarrow> subnet list" where
  "subnet_find d net_id segment_id =
     filter (\<lambda>s. s_network_id s \<in> set (listify net_id) \<and>
                 (case s_segment_id s of None \<Rightarrow> False | Some g \<Rightarrow> g \<in> set (listify segment_id)))
       (quark_subnets d)"

text \<open>The \<open>sub_ids\<close> of \<open>attempt_to_reallocate_ip\<close>; \<open>subnets = []\<close> stands for no subnets given.\<close>

definition reallocate_sub_ids :: "db \<Rightarrow> string \<Rightarrow> string option \<Rightarrow> string list \<Rightarrow> string list" where
  "reallocate_sub_ids d net_id segment_id subnets =
     (if subnets \<noteq> [] then subnets
      else if truthy_str segment_id then map s_id (subnet_find d net_id (the segment_id))
      else [])"

text \<open>The filters of the claim, \<open>ip_kwargs\<close>.\<close>

definition reallocate_ip_kwargs ::
  "string \<Rightarrow> int \<Rightarrow> py_version \<Rightarrow> ipaddr option \<Rightarrow> string list \<Rightarrow> ip_filters" where
  "reallocate_ip_kwargs net_id reuse_after version ip_address sub_ids =
     \<lparr>f_network_id = Some net_id,
      f_reuse_after = Some reuse_after,
      f_deallocated = (if truthy_ip ip_address then None else Some True),
      f_ip_address = ip_address,
      f_version = listify_version version,
      f_subnet_id = (if sub_ids \<noteq> [] then Some sub_ids else None),
      f_transaction_id = None\<rparr>"

text \<open>The values the claim sets, \<open>update_kwargs\<close>.\<close>

definition reallocate_update_kwargs ::
  "request_context \<Rightarrow> kwargs \<Rightarrow> nat \<Rightarrow> int \<Rightarrow> ip_address \<Rightarrow> ip_address" where
  "reallocate_update_kwargs ctx kw transaction_id now row =
     row\<lparr>a_transaction_id := Some transaction_id,
         a_address_type := get_address_type kw,
         a_deallocated := False,
         a_deallocated_at := None,
         a_used_by_tenant_id := tenant_id ctx,
         a_allocated_at := Some now\<rparr>"

text \<open>
  The retry loop of \<open>attempt_to_reallocate_ip\<close>, the number of attempts left as its first
  argument. Every exception inside an attempt is caught and the next attempt follows.
\<close>

fun reallocate_ip_loop ::
  "nat \<Rightarrow> request_context \<Rightarrow> kwargs \<Rightarrow> ip_filters \<Rightarrow> 'g engine \<Rightarrow> ip_address list \<times> 'g engine" where
  "reallocate_ip_loop 0 ctx kw ip_kwargs st = ([], st)"
| "reallocate_ip_loop (Suc n) ctx kw ip_kwargs st =
     (let st1 = make_entry ''attempt_to_reallocate_ip'' st in
      case transaction_create (store st1) of (transaction, d1) \<Rightarrow>
      (case ip_address_reallocate d1 (elevated ctx)
              (reallocate_update_kwargs ctx kw transaction (utcnow d1)) ip_kwargs of
         Inl e \<Rightarrow> reallocate_ip_loop n ctx kw ip_kwargs (attempt_failed (st1\<lparr>store := d1\<rparr>))
       | Inr (result, d2) \<Rightarrow>
           if \<not> result then ([], attempt_failed (st1\<lparr>store := d2\<rparr>))
           else
      (case ip_address_reallocate_find d2 (elevated ctx) transaction of
         Inl e \<Rightarrow> reallocate_ip_loop n ctx kw ip_kwargs (attempt_failed (st1\<lparr>store := d2\<rparr>))
       | Inr (None, d3) \<Rightarrow>
           reallocate_ip_loop n ctx kw ip_kwargs (attempt_failed (st1\<lparr>store := d3\<rparr>))
       | Inr (Some updated_address, d3) \<Rightarrow> ([updated_address], st1\<lparr>store := d3\<rparr>))))"

text \<open>
  \<open>QuarkIpam.attempt_to_reallocate_ip\<close>, the method of the base class. \<open>port_id\<close> is only
  logged and is left out.
\<close>

definition attempt_to_reallocate_ip ::
  "conf \<Rightarrow> request_context \<Rightarrow> string \<Rightarrow> int \<Rightarrow> py_version \<Rightarrow> ipaddr option \<Rightarrow>
     string option \<Rightarrow> string list \<Rightarrow> kwargs \<Rightarrow> 'g engine \<Rightarrow> (error + ip_address list) \<times> 'g engine" where
  "attempt_to_reallocate_ip cf ctx net_id reuse_after version ip_address segment_id subnets kw st =
     (if version_or_both version = VerInt 6 then (Inr [], st)
      else if subnets = [] \<and> truthy_str segment_id \<and>
              reallocate_sub_ids (store st) net_id segment_id subnets = []
        then (Inl IpAddressGenerationFailure, st)
      else
        (case reallocate_ip_loop (ip_address_retry_max cf) ctx kw
                (reallocate_ip_kwargs net_id reuse_after (version_or_both version) ip_address
                   (reallocate_sub_ids (store st) net_id segment_id subnets)) st of
           (addresses, st') \<Rightarrow> (Inr addresses, st')))"

section \<open>MAC allocation\<close>

record mac_filters =
  mf_reuse_after :: "int option"
  mf_deallocated :: "bool option"
  mf_address :: "int option"
  mf_transaction_id :: "nat option"

datatype mac_cond =
    MacDeallocatedAtLe int
  | MacDeallocatedEq bool
  | MacAddressEq int
  | MacTransactionIdEq nat
  | MacTenantIdIn "string list"

text \<open>\<open>_model_query\<close> for the MacAddress model.\<close>

definition model_query_MacAddress :: "request_context \<Rightarrow> int \<Rightarrow> mac_filters \<Rightarrow> mac_cond list" where
  "model_query_MacAddress ctx now filters =
     (case mf_reuse_after filters of None \<Rightarrow> [] | Some s \<Rightarrow> [MacDeallocatedAtLe (now - s)]) @
     (case mf_deallocated filters of None \<Rightarrow> [] | Some b \<Rightarrow> [MacDeallocatedEq b]) @
     (case mf_address filters of None \<Rightarrow> [] | Some a \<Rightarrow> [MacAddressEq a]) @
     (case mf_transaction_id filters of None \<Rightarrow> [] | Some t \<Rightarrow> [MacTransactionIdEq t]) @
     (if is_admin ctx then [] else [MacTenantIdIn [tenant_id ctx]])"

fun mac_cond_holds :: "mac_cond \<Rightarrow> mac_address \<Rightarrow> bool" where
  "mac_cond_holds (MacDeallocatedAtLe t) row =
     (case m_deallocated_at row of None \<Rightarrow> False | Some at \<Rightarrow> at \<le> t)"
| "mac_cond_holds (MacDeallocatedEq b) row = (m_deallocated row = b)"
| "mac_cond_holds (MacAddressEq a) row = (m_address row = a)"
| "mac_cond_holds (MacTransactionIdEq t) row = (m_transaction_id row = Some t)"
| "mac_cond_holds (MacTenantIdIn ts) row = (m_tenant_id row \<in> set ts)"

definition mac_matches :: "mac_cond list \<Rightarrow> mac_address \<Rightarrow> bool" where
  "mac_matches conds row = list_all (\<lambda>c. mac_cond_holds c row) conds"

definition mac_address_reallocate ::
  "db \<Rightarrow> request_context \<Rightarrow> (mac_address \<Rightarrow> mac_address) \<Rightarrow> mac_filters \<Rightarrow> bool \<times> db" where
  "mac_address_reallocate d ctx update_kwargs filters =
     (case update_limit (mac_matches (model_query_MacAddress ctx (utcnow d) filters))
             update_kwargs (quark_mac_addresses d) of
        (row_count, rows) \<Rightarrow> (row_count = 1, d\<lparr>quark_mac_addresses := rows\<rparr>))"

text \<open>The \<open>mac_address_range\<close> relationship of a MAC row.\<close>

definition mac_address_range_of :: "db \<Rightarrow> mac_address \<Rightarrow> mac_address_range option" where
  "mac_address_range_of d mac =
     (case m_mac_address_range_id mac of
        None \<Rightarrow> None
      | Some rid \<Rightarrow> find (\<lambda>r. r_id r = rid) (quark_mac_address_ranges d))"

text \<open>\<open>mac_address_find\<close> with \<open>scope = ONE\<close>: the first row that matches.\<close>

definition mac_address_find :: "db \<Rightarrow> request_context \<Rightarrow> mac_filters \<Rightarrow> mac_address option" where
  "mac_address_find d ctx filters =
     find (mac_matches (model_query_MacAddress ctx (utcnow d) filters)) (quark_mac_addresses d)"

definition mac_address_reallocate_find ::
  "db \<Rightarrow> request_context \<Rightarrow> nat \<Rightarrow> mac_address option \<times> db" where
  "mac_address_reallocate_find d ctx transaction_id =
     (case mac_address_find d ctx
             \<lparr>mf_reuse_after = None, mf_deallocated = None, mf_address = None,
              mf_transaction_id = Some transaction_id\<rparr> of
        None \<Rightarrow> (None, d)
      | Some mac \<Rightarrow>
          (case mac_address_range_of d mac of
             None \<Rightarrow> (Some mac, d)
           | Some rng \<Rightarrow>
               if r_do_not_use rng
                 then (None, d\<lparr>quark_mac_addresses := remove1 mac (quark_mac_addresses d)\<rparr>)
               else (Some mac, d)))"

text \<open>\<open>netaddr.EUI(n)\<close> accepts a 48-bit or 64-bit value and raises on any other.\<close>

definition EUI_ok :: "int \<Rightarrow> bool" where
  "EUI_ok n = (0 \<le> n \<and> n \<le> 0xffffffffffffffff)"

definition mac_reallocate_update_kwargs :: "nat \<Rightarrow> mac_address \<Rightarrow> mac_address" where
  "mac_reallocate_update_kwargs transaction_id row =
     row\<lparr>m_deallocated := False, m_deallocated_at := None,
         m_transaction_id := Some transaction_id\<rparr>"

definition mac_reallocate_filter_kwargs :: "int \<Rightarrow> int option \<Rightarrow> mac_filters" where
  "mac_reallocate_filter_kwargs reuse_after mac_address =
     \<lparr>mf_reuse_after = Some reuse_after, mf_deallocated = Some True, mf_address = mac_address,
      mf_transaction_id = None\<rparr>"

text \<open>
  One attempt of the first loop of \<open>allocate_mac_address\<close>: the result of the claim, what
  the re-find gave, and how the attempt leaves the loop body.
\<close>

datatype 'a attempt = Return 'a | Break | Continue

definition mac_reallocate_attempt ::
  "request_context \<Rightarrow> int \<Rightarrow> int option \<Rightarrow> db \<Rightarrow> mac_address attempt \<times> db" where
  "mac_reallocate_attempt ctx reuse_after mac_address d =
     (case transaction_create d of (transaction, d1) \<Rightarrow>
      (case mac_address_reallocate d1 (elevated ctx) (mac_reallocate_update_kwargs transaction)
              (mac_reallocate_filter_kwargs reuse_after mac_address) of
         (result, d2) \<Rightarrow>
           if \<not> result then (Break, d2)
           else
             (case mac_address_reallocate_find d2 (elevated ctx) transaction of
                (None, d3) \<Rightarrow> (Continue, d3)
              | (Some reallocated_mac, d3) \<Rightarrow>
                  if EUI_ok (m_address reallocated_mac) then (Return reallocated_mac, d3)
                  else (Continue, d3))))"

fun mac_reallocate_loop ::
  "nat \<Rightarrow> request_context \<Rightarrow> int \<Rightarrow> int option \<Rightarrow> db \<Rightarrow> mac_address option \<times> db" where
  "mac_reallocate_loop 0 ctx reuse_after mac_address d = (None, d)"
| "mac_reallocate_loop (Suc n) ctx reuse_after mac_address d =
     (case mac_reallocate_attempt ctx reuse_after mac_address d of
        (Return mac, d') \<Rightarrow> (Some mac, d')
      | (Break, d') \<Rightarrow> (None, d')
      | (Continue, d') \<Rightarrow> mac_reallocate_loop n ctx reuse_after mac_address d')"

text \<open>
  \<open>mac_address_range_find_allocation_counts\<close>: the ranges that may be used, with the number
  of their MAC rows, the range with the most rows first; the first one is returned.
\<close>

definition mac_count :: "db \<Rightarrow> mac_address_range \<Rightarrow> nat" where
  "mac_count d rng =
     length (filter (\<lambda>m. m_mac_address_range_id m = Some (r_id rng)) (quark_mac_addresses d))"

definition mac_address_range_find_allocation_counts ::
  "db \<Rightarrow> int option \<Rightarrow> bool \<Rightarrow> (mac_address_range \<times> nat) option" where
  "mac_address_range_find_allocation_counts d address use_forbidden_mac_range =
     (case rev (sort_key (\<lambda>r. mac_count d r)
                 (rev (filter (\<lambda>r.
                    (case address of
                       None \<Rightarrow> True
                     | Some a \<Rightarrow> a = 0 \<or> (r_last_address r \<ge> a \<and> r_first_address r \<le> a)) \<and>
                    r_next_auto_assign_mac r \<noteq> -1 \<and>
                    (use_forbidden_mac_range \<or> \<not> r_do_not_use r))
                  (quark_mac_address_ranges d)))) of
        [] \<Rightarrow> None
      | r # _ \<Rightarrow> Some (r, mac_count d r))"

definition mac_range_open :: "mac_address_range \<Rightarrow> mac_address_range \<Rightarrow> bool" where
  "mac_range_open mac_range row =
     (r_id row = r_id mac_range \<and> r_next_auto_assign_mac row \<noteq> -1)"

definition mac_range_update_next_auto_assign_mac :: "db \<Rightarrow> mac_address_range \<Rightarrow> nat \<times> db" where
  "mac_range_update_next_auto_assign_mac d mac_range =
     (length (filter (mac_range_open mac_range) (quark_mac_address_ranges d)),
      d\<lparr>quark_mac_address_ranges :=
          map (\<lambda>row. if mac_range_open mac_range row
                      then row\<lparr>r_next_auto_assign_mac := r_next_auto_assign_mac row + 1\<rparr>
                      else row)
            (quark_mac_address_ranges d)\<rparr>)"

definition mac_range_update_set_full :: "db \<Rightarrow> mac_address_range \<Rightarrow> nat \<times> db" where
  "mac_range_update_set_full d mac_range =
     (length (filter (mac_range_open mac_range) (quark_mac_address_ranges d)),
      d\<lparr>quark_mac_address_ranges :=
          map (\<lambda>row. if mac_range_open mac_range row
                      then row\<lparr>r_next_auto_assign_mac := -1\<rparr>
                      else row)
            (quark_mac_address_ranges d)\<rparr>)"

text \<open>
  \<open>mac_address_create\<close> inside its transaction: the address of a MAC row is unique, and the
  insert of a second row with the same address fails.
\<close>

definition mac_address_create ::
  "db \<Rightarrow> request_context \<Rightarrow> int \<Rightarrow> string \<Rightarrow> error + mac_address \<times> db" where
  "mac_address_create d ctx address mac_address_range_id =
     (if address \<in> set (map m_address (quark_mac_addresses d)) then Inl DBDuplicateEntry
      else
        (let mac = \<lparr>m_address = address, m_mac_address_range_id = Some mac_address_range_id,
                    m_tenant_id = tenant_id ctx, m_deallocated = False,
                    m_deallocated_at = None, m_transaction_id = None\<rparr>
         in Inr (mac, d\<lparr>quark_mac_addresses := quark_mac_addresses d @ [mac]\<rparr>)))"

fun mac_create_loop ::
  "nat \<Rightarrow> request_context \<Rightarrow> int option \<Rightarrow> bool \<Rightarrow> db \<Rightarrow> (error + mac_address) \<times> db" where
  "mac_create_loop 0 ctx mac_address use_forbidden_mac_range d =
     (Inl MacAddressGenerationFailure, d)"
| "mac_create_loop (Suc n) ctx mac_address use_forbidden_mac_range d =
     (case mac_address_range_find_allocation_counts d mac_address use_forbidden_mac_range of
        None \<Rightarrow> (Inl MacAddressGenerationFailure, d)
      | Some (rng, addr_count) \<Rightarrow>
          if r_last_address rng - r_first_address rng + 1 \<le> int addr_count
            then mac_create_loop n ctx mac_address use_forbidden_mac_range
                   (snd (mac_range_update_set_full d rng))
          else
            (let next_address =
                   (case mac_address of
                      None \<Rightarrow> r_next_auto_assign_mac rng
                    | Some a \<Rightarrow> if a \<noteq> 0 then a else r_next_auto_assign_mac rng);
                 d1 =
                   (if mac_address \<noteq> None \<and> mac_address \<noteq> Some 0 then d
                    else if r_next_auto_assign_mac rng + 1 > r_last_address rng
                      then snd (mac_range_update_set_full d rng)
                    else snd (mac_range_update_next_auto_assign_mac d rng))
             in if \<not> EUI_ok next_address
                  then mac_create_loop n ctx mac_address use_forbidden_mac_range d1
                else
                  (case mac_address_create d1 ctx next_address (r_id rng) of
                     Inl e \<Rightarrow> mac_create_loop n ctx mac_address use_forbidden_mac_range d1
                   | Inr (address, d2) \<Rightarrow> (Inr address, d2))))"

text \<open>
  \<open>allocate_mac_address\<close>; \<open>mac_address\<close> is the value of the requested MAC
  (\<open>netaddr.EUI(mac_address).value\<close>, which raises on a value that is no EUI), \<open>None\<close> when
  none is requested.
\<close>

definition allocate_mac_address ::
  "conf \<Rightarrow> request_context \<Rightarrow> int \<Rightarrow> int option \<Rightarrow> bool \<Rightarrow> db \<Rightarrow> (error + mac_address) \<times> db" where
  "allocate_mac_address cf ctx reuse_after mac_address use_forbidden_mac_range d =
     (if (case mac_address of None \<Rightarrow> False | Some a \<Rightarrow> a \<noteq> 0 \<and> \<not> EUI_ok a)
        then (Inl AddrFormatError, d)
      else
        (case mac_reallocate_loop (mac_address_retry_max cf) ctx reuse_after mac_address d of
           (Some reallocated_mac, d') \<Rightarrow> (Inr reallocated_mac, d')
         | (None, d') \<Rightarrow>
             mac_create_loop (mac_address_retry_max cf) ctx mac_address
               use_forbidden_mac_range d'))"

section \<open>Subnet selection\<close>

text \<open>
  Modelled from the spec: the \<open>generated_ips\<close> relationship that the query joins is
  declared in db/models.py, which is not among the sources. By the spec the subnets are
  fetched with their current allocation count, the count of the allocated addresses of the
  subnet.
\<close>

definition ips_in_subnet :: "db \<Rightarrow> subnet \<Rightarrow> nat" where
  "ips_in_subnet d subnet =
     length (filter (\<lambda>a. a_subnet_id a = Some (s_id subnet) \<and> \<not> a_deallocated a)
               (quark_ip_addresses d))"

text \<open>The two keys of the \<open>ORDER BY\<close> clause: \<open>ip_version\<close>, then \<open>size - count\<close>.\<close>

definition most_full_key :: "db \<Rightarrow> subnet \<Rightarrow> int \<times> int" where
  "most_full_key d subnet =
     (s_ip_version subnet, (s_last_ip subnet - s_first_ip subnet) - int (ips_in_subnet d subnet))"

text \<open>
  The rows of a query on \<open>quark_subnets\<close> in the order in which the database produces them,
  before any \<open>ORDER BY\<close>.
\<close>

fun row_position :: "string list \<Rightarrow> string \<Rightarrow> nat" where
  "row_position [] i = 0"
| "row_position (j # js) i = (if i = j then 0 else Suc (row_position js i))"

definition produced_rows :: "db \<Rightarrow> subnet list \<Rightarrow> subnet list" where
  "produced_rows d rows = sort_key (\<lambda>s. row_position (row_order d) (s_id s)) rows"

text \<open>
  \<open>subnet_find_ordered_by_most_full\<close>: the filtered subnets with their counts, sorted on the
  two keys. SQL leaves the order of rows that agree on every key to the database: they stay
  in the order in which the database produced them.
\<close>

definition subnet_find_ordered_by_most_full ::
  "db \<Rightarrow> string \<Rightarrow> string option \<Rightarrow> string list option \<Rightarrow> int option \<Rightarrow> (subnet \<times> nat) list" where
  "subnet_find_ordered_by_most_full d net_id segment_id subnet_id ip_version =
     map (\<lambda>s. (s, ips_in_subnet d s))
       (sort_key (most_full_key d)
          (produced_rows d (filter (\<lambda>s.
               \<not> s_do_not_use s \<and>
               s_network_id s = net_id \<and>
               (case ip_version of None \<Rightarrow> True | Some v \<Rightarrow> s_ip_version s = v) \<and>
               (truthy_str segment_id \<longrightarrow> s_segment_id s = segment_id) \<and>
               s_next_auto_assign_ip s \<noteq> -1 \<and>
               (case subnet_id of
                  None \<Rightarrow> True
                | Some ids \<Rightarrow> ids = [] \<or> s_id s \<in> set ids))
             (quark_subnets d))))"

text \<open>\<open>context.session.refresh(subnet)\<close>\<close>

definition refresh :: "db \<Rightarrow> subnet \<Rightarrow> subnet" where
  "refresh d subnet =
     (case find (\<lambda>row. s_id row = s_id subnet) (quark_subnets d) of
        None \<Rightarrow> subnet
      | Some row \<Rightarrow> row)"

text \<open>The requested address as \<open>select_subnet\<close> compares it with the subnet's network.\<close>

definition requested_in_subnet :: "ipaddr \<Rightarrow> ipnet \<Rightarrow> error + bool" where
  "requested_in_subnet ip_address net =
     (if net_version net = 4 \<and> addr_version ip_address \<noteq> 4
        then (case ipv4 ip_address of
                Inl e \<Rightarrow> Inl e
              | Inr requested_ip \<Rightarrow> Inr (in_net requested_ip net))
      else Inr (in_net ip_address net))"

text \<open>The loop of \<open>select_subnet\<close> over the rows of the query.\<close>

fun select_subnet_loop ::
  "(subnet \<times> nat) list \<Rightarrow> ipaddr option \<Rightarrow> string list option \<Rightarrow> db \<Rightarrow>
     (error + subnet option) \<times> db" where
  "select_subnet_loop [] ip_address subnet_ids d = (Inr None, d)"
| "select_subnet_loop ((subnet, count) # rest) ip_address subnet_ids d =
     (case (if truthy_ip ip_address then requested_in_subnet (the ip_address) (s_cidr subnet)
            else Inr True) of
        Inl e \<Rightarrow> (Inl e, d)
      | Inr False \<Rightarrow>
          if subnet_ids \<noteq> None then (Inl IPAddressNotInSubnet, d)
          else select_subnet_loop rest ip_address subnet_ids d
      | Inr True \<Rightarrow>
          (let policy_size =
                 (if truthy_ip ip_address then 0
                  else (case s_ip_policy subnet of None \<Rightarrow> 0 | Some p \<Rightarrow> ip_policy_size p))
           in if net_size (s_cidr subnet) > int count + policy_size - 1 then
                (if \<not> truthy_ip ip_address \<and> s_ip_version subnet = 4 then
                   (case (if s_next_auto_assign_ip subnet < s_first_ip subnet \<or>
                             s_next_auto_assign_ip subnet > s_last_ip subnet
                          then subnet_update_set_full d subnet
                          else subnet_update_next_auto_assign_ip d subnet) of
                      (updated, d') \<Rightarrow>
                        if updated \<noteq> 0 then (Inr (Some (refresh d' subnet)), d')
                        else (Inr None, d'))
                 else (Inr (Some subnet), d))
              else select_subnet_loop rest ip_address subnet_ids
                     (snd (subnet_update_set_full d subnet))))"

definition select_subnet ::
  "string \<Rightarrow> ipaddr option \<Rightarrow> string option \<Rightarrow> string list option \<Rightarrow> int option \<Rightarrow> db \<Rightarrow>
     (error + subnet option) \<times> db" where
  "select_subnet net_id ip_address segment_id subnet_ids ip_version d =
     select_subnet_loop
       (subnet_find_ordered_by_most_full d net_id segment_id subnet_ids ip_version)
       ip_address subnet_ids d"

section \<open>IP creation\<close>

text \<open>
  \<open>ip_address_create\<close> inside its transaction. A subnet holds an address once (the unique
  key on \<open>subnet_id\<close> and \<open>address\<close>), and the insert of a second row fails.
\<close>

definition ip_address_create ::
  "db \<Rightarrow> request_context \<Rightarrow> ipaddr \<Rightarrow> string \<Rightarrow> int \<Rightarrow> string \<Rightarrow> string option \<Rightarrow>
     error + ip_address \<times> db" where
  "ip_address_create d ctx address subnet_id version network_id address_type =
     (if (Some subnet_id, addr_value (ipv6 address)) \<in>
           set (map (\<lambda>a. (a_subnet_id a, a_address a)) (quark_ip_addresses d))
        then Inl DBDuplicateEntry
      else
        (let row = \<lparr>a_address = addr_value (ipv6 address), a_version = version,
                    a_subnet_id = Some subnet_id, a_network_id = network_id,
                    a_used_by_tenant_id = tenant_id ctx, a_allocated_at = Some (utcnow d),
                    a_deallocated = False, a_deallocated_at = None,
                    a_address_type = address_type, a_transaction_id = None\<rparr>
         in Inr (row, d\<lparr>quark_ip_addresses := quark_ip_addresses d @ [row]\<rparr>)))"

text \<open>The candidate of \<open>_allocate_from_subnet\<close> when no address is requested.\<close>

definition next_auto_ip :: "subnet \<Rightarrow> error + ipaddr" where
  "next_auto_ip subnet =
     (case (if s_next_auto_assign_ip subnet \<noteq> -1
              then IPAddress (s_next_auto_assign_ip subnet - 1)
            else IPAddress (s_last_ip subnet)) of
        Inl e \<Rightarrow> Inl e
      | Inr next_ip \<Rightarrow> if s_ip_version subnet = 4 then ipv4 next_ip else Inr next_ip)"

text \<open>\<open>ip_policy_cidrs and next_ip in ip_policy_cidrs\<close>\<close>

definition violates_policy :: "ipaddr \<Rightarrow> subnet \<Rightarrow> bool" where
  "violates_policy next_ip subnet =
     (case get_ip_policy_cidrs subnet of
        None \<Rightarrow> False
      | Some ip_policy_cidrs \<Rightarrow> ip_policy_cidrs \<noteq> [] \<and> in_ipset next_ip ip_policy_cidrs)"

definition allocate_from_subnet ::
  "request_context \<Rightarrow> string \<Rightarrow> subnet \<Rightarrow> ipaddr option \<Rightarrow> kwargs \<Rightarrow> 'g engine \<Rightarrow>
     (error + ip_address) \<times> 'g engine" where
  "allocate_from_subnet ctx net_id subnet ip_address kw st =
     (case (if truthy_ip ip_address then Inr (the ip_address) else next_auto_ip subnet) of
        Inl e \<Rightarrow> (Inl e, st)
      | Inr next_ip \<Rightarrow>
          if violates_policy next_ip subnet \<and> \<not> truthy_ip ip_address
            then (Inl IPAddressPolicyRetryableFailure, st)
          else
            (case ip_address_create (store st) ctx next_ip (s_id subnet) (s_ip_version subnet)
                    net_id (get_address_type kw) of
               Inl e \<Rightarrow>
                 if truthy_ip ip_address then (Inl IpAddressInUse, st)
                 else (Inl IPAddressRetryableFailure, st)
             | Inr (address, d') \<Rightarrow> (Inr address, st\<lparr>store := d'\<rparr>)))"

text \<open>
  The filters and the update of the find-then-claim step of \<open>_allocate_from_v6_subnet\<close>.
\<close>

definition v6_find_filters :: "string \<Rightarrow> ipaddr \<Rightarrow> int \<Rightarrow> subnet \<Rightarrow> ip_filters" where
  "v6_find_filters net_id ip_address reuse_after subnet =
     \<lparr>f_network_id = Some net_id, f_reuse_after = Some reuse_after, f_deallocated = Some True,
      f_ip_address = Some ip_address, f_version = None,
      f_subnet_id = Some (listify (s_id subnet)), f_transaction_id = None\<rparr>"

definition ip_address_update_claim ::
  "db \<Rightarrow> request_context \<Rightarrow> kwargs \<Rightarrow> ip_address \<Rightarrow> ip_address \<times> db" where
  "ip_address_update_claim d ctx kw address =
     (let updated = address\<lparr>a_deallocated := False, a_deallocated_at := None,
                            a_used_by_tenant_id := tenant_id ctx,
                            a_allocated_at := Some (utcnow d),
                            a_address_type := get_address_type kw\<rparr>
      in (updated,
          d\<lparr>quark_ip_addresses :=
               snd (update_limit (\<lambda>row. row = address) (\<lambda>row. updated) (quark_ip_addresses d))\<rparr>))"

text \<open>
  The loop of \<open>_allocate_from_v6_subnet\<close> over \<open>generate_v6\<close>. The first argument is the
  number of candidates that may still be tried; the generator is advanced before the count
  is checked.
\<close>

fun allocate_v6_loop ::
  "nat \<Rightarrow> 'g random \<Rightarrow> request_context \<Rightarrow> string \<Rightarrow> subnet \<Rightarrow> int option \<Rightarrow> int \<Rightarrow> int \<Rightarrow>
     kwargs \<Rightarrow> generate_v6_frame \<Rightarrow> 'g engine \<Rightarrow> (error + ip_address) \<times> 'g engine" where
  "allocate_v6_loop 0 rnd ctx net_id subnet mac port_id reuse_after kw frame st =
     (case generate_v6_next rnd mac port_id (s_cidr subnet) frame (random_state st) of
        (Inl e, frame', g) \<Rightarrow> (Inl e, st\<lparr>random_state := g\<rparr>)
      | (Inr v, frame', g) \<Rightarrow> (Inl IpAddressGenerationFailure, st\<lparr>random_state := g\<rparr>))"
| "allocate_v6_loop (Suc n) rnd ctx net_id subnet mac port_id reuse_after kw frame st =
     (case generate_v6_next rnd mac port_id (s_cidr subnet) frame (random_state st) of
        (Inl e, frame', g) \<Rightarrow> (Inl e, st\<lparr>random_state := g\<rparr>)
      | (Inr v, frame', g) \<Rightarrow>
     (case IPAddress v of
        Inl e \<Rightarrow> (Inl e, st\<lparr>random_state := g\<rparr>)
      | Inr generated \<Rightarrow>
          if (case get_ip_policy_cidrs subnet of
                None \<Rightarrow> False
              | Some ip_policy_cidrs \<Rightarrow> in_ipset (ipv6 generated) ip_policy_cidrs)
            then allocate_v6_loop n rnd ctx net_id subnet mac port_id reuse_after kw frame'
                   (st\<lparr>random_state := g\<rparr>)
          else
     (case ip_address_find (store st) ctx
             (v6_find_filters net_id (ipv6 generated) reuse_after subnet) of
        Inl e \<Rightarrow> (Inl e, st\<lparr>random_state := g\<rparr>)
      | Inr (Some address) \<Rightarrow>
          (case ip_address_update_claim (store st) ctx kw address of
             (updated, d') \<Rightarrow> (Inr updated, st\<lparr>random_state := g, store := d'\<rparr>))
      | Inr None \<Rightarrow>
          (case ip_address_create (store st) ctx (ipv6 generated) (s_id subnet)
                  (s_ip_version subnet) net_id (get_address_type kw) of
             Inl e \<Rightarrow>
               allocate_v6_loop n rnd ctx net_id subnet mac port_id reuse_after kw frame'
                 (st\<lparr>random_state := g\<rparr>)
           | Inr (address, d') \<Rightarrow> (Inr address, st\<lparr>random_state := g, store := d'\<rparr>)))))"

definition allocate_from_v6_subnet ::
  "'g random \<Rightarrow> conf \<Rightarrow> request_context \<Rightarrow> string \<Rightarrow> subnet \<Rightarrow> int \<Rightarrow> int \<Rightarrow> ipaddr option \<Rightarrow>
     kwargs \<Rightarrow> 'g engine \<Rightarrow> (error + ip_address) \<times> 'g engine" where
  "allocate_from_v6_subnet rnd cf ctx net_id subnet port_id reuse_after ip_address kw st =
     (if truthy_ip ip_address then allocate_from_subnet ctx net_id subnet ip_address kw st
      else allocate_v6_loop (nat (v6_allocation_attempts cf)) rnd ctx net_id subnet
             (map_option m_address (kw_mac_address kw)) port_id reuse_after kw G_Start st)"

fun allocate_ips_from_subnets ::
  "'g random \<Rightarrow> conf \<Rightarrow> request_context \<Rightarrow> string \<Rightarrow> subnet option list \<Rightarrow> int \<Rightarrow> int \<Rightarrow>
     ipaddr option \<Rightarrow> kwargs \<Rightarrow> 'g engine \<Rightarrow> (error + unit) \<times> 'g engine" where
  "allocate_ips_from_subnets rnd cf ctx net_id [] port_id reuse_after ip_address kw st =
     (Inr (), st)"
| "allocate_ips_from_subnets rnd cf ctx net_id (None # rest) port_id reuse_after ip_address kw st =
     allocate_ips_from_subnets rnd cf ctx net_id rest port_id reuse_after ip_address kw st"
| "allocate_ips_from_subnets rnd cf ctx net_id (Some subnet # rest) port_id reuse_after ip_address kw st =
     (case (if s_ip_version subnet = 4
              then allocate_from_subnet ctx net_id subnet ip_address kw st
            else allocate_from_v6_subnet rnd cf ctx net_id subnet port_id reuse_after
                   ip_address kw st) of
        (Inl e, st') \<Rightarrow> (Inl e, st')
      | (Inr address, st') \<Rightarrow>
          allocate_ips_from_subnets rnd cf ctx net_id rest port_id reuse_after ip_address kw
            (st'\<lparr>new_addresses := new_addresses st' @ [address]\<rparr>))"

section \<open>Strategies\<close>

datatype strategy = ANY | BOTH | BOTH_REQUIRED

text \<open>
  \<open>req.remove(ip["version"])\<close> for each address in turn, as \<open>QuarkIpamBOTH\<close> does it:
  removing a version that is not in the list raises.
\<close>

fun remove_versions :: "int list \<Rightarrow> ip_address list \<Rightarrow> error + int list" where
  "remove_versions req [] = Inr req"
| "remove_versions req (ip # ips) =
     (if a_version ip \<in> set req then remove_versions (remove1 (a_version ip) req) ips
      else Inl ValueError)"

text \<open>The loop of \<open>QuarkIpamBOTHREQ.is_strategy_satisfied\<close>, which tests inside the loop.\<close>

fun both_required_loop :: "int list \<Rightarrow> ip_address list \<Rightarrow> error + bool" where
  "both_required_loop req [] = Inr False"
| "both_required_loop req (ip # ips) =
     (if a_version ip \<in> set req
        then (if length (remove1 (a_version ip) req) = 0 then Inr True
              else both_required_loop (remove1 (a_version ip) req) ips)
      else Inl ValueError)"

definition is_strategy_satisfied :: "strategy \<Rightarrow> ip_address list \<Rightarrow> bool \<Rightarrow> error + bool" where
  "is_strategy_satisfied strat ip_addresses allocate_complete =
     (case strat of
        ANY \<Rightarrow> Inr (ip_addresses \<noteq> [])
      | BOTH \<Rightarrow>
          (case remove_versions [4, 6] ip_addresses of
             Inl e \<Rightarrow> Inl e
           | Inr req \<Rightarrow>
               if length req = 0 then Inr True
               else if length req = 1 \<and> allocate_complete then Inr True
               else Inr False)
      | BOTH_REQUIRED \<Rightarrow> both_required_loop [4, 6] ip_addresses)"

text \<open>\<open>attempt_to_reallocate_ip\<close> of the strategy: \<open>QuarkIpamBOTH\<close> runs the base method for
  version 4 and for version 6.\<close>

definition strategy_attempt_to_reallocate_ip ::
  "strategy \<Rightarrow> conf \<Rightarrow> request_context \<Rightarrow> string \<Rightarrow> int \<Rightarrow> py_version \<Rightarrow> ipaddr option \<Rightarrow>
     string option \<Rightarrow> string list \<Rightarrow> kwargs \<Rightarrow> 'g engine \<Rightarrow> (error + ip_address list) \<times> 'g engine" where
  "strategy_attempt_to_reallocate_ip strat cf ctx net_id reuse_after version ip_address segment_id
       subnet_ids kw st =
     (if strat = ANY
        then attempt_to_reallocate_ip cf ctx net_id reuse_after version ip_address segment_id
               subnet_ids kw st
      else
        (case attempt_to_reallocate_ip cf ctx net_id reuse_after (VerInt 4) ip_address
                segment_id subnet_ids kw st of
           (Inl e, st') \<Rightarrow> (Inl e, st')
         | (Inr v4, st') \<Rightarrow>
             (case attempt_to_reallocate_ip cf ctx net_id reuse_after (VerInt 6) ip_address
                     segment_id subnet_ids kw st' of
                (Inl e, st'') \<Rightarrow> (Inl e, st'')
              | (Inr v6, st'') \<Rightarrow> (Inr (v4 @ v6), st''))))"

text \<open>The versions \<open>QuarkIpamBOTH._choose_available_subnet\<close> still needs.\<close>

fun need_versions :: "int list \<Rightarrow> ip_address list \<Rightarrow> int list" where
  "need_versions need [] = need"
| "need_versions need (i # reallocated_ips) =
     need_versions (if a_version i \<in> set need then remove1 (a_version i) need else need)
       reallocated_ips"

fun select_each_version ::
  "int list \<Rightarrow> string \<Rightarrow> ipaddr option \<Rightarrow> string option \<Rightarrow> db \<Rightarrow> (error + subnet list) \<times> db" where
  "select_each_version [] net_id ip_address segment_id d = (Inr [], d)"
| "select_each_version (ver # vers) net_id ip_address segment_id d =
     (case select_subnet net_id ip_address segment_id None (Some ver) d of
        (Inl e, d') \<Rightarrow> (Inl e, d')
      | (Inr sub, d') \<Rightarrow>
          (case select_each_version vers net_id ip_address segment_id d' of
             (Inl e, d'') \<Rightarrow> (Inl e, d'')
           | (Inr subs, d'') \<Rightarrow> (Inr ((case sub of None \<Rightarrow> [] | Some s \<Rightarrow> [s]) @ subs), d'')))"

definition choose_available_subnet ::
  "strategy \<Rightarrow> string \<Rightarrow> int option \<Rightarrow> string option \<Rightarrow> ipaddr option \<Rightarrow> ip_address list \<Rightarrow>
     db \<Rightarrow> (error + subnet list) \<times> db" where
  "choose_available_subnet strat net_id version segment_id ip_address reallocated_ips d =
     (if strat = ANY then
        (case select_subnet net_id ip_address segment_id None
                (if version = Some 0 then None else version) d of
           (Inl e, d') \<Rightarrow> (Inl e, d')
         | (Inr None, d') \<Rightarrow> (Inl IpAddressGenerationFailure, d')
         | (Inr (Some subnet), d') \<Rightarrow> (Inr [subnet], d'))
      else
        (case select_each_version (need_versions [4, 6] reallocated_ips) net_id ip_address
                segment_id d of
           (Inl e, d') \<Rightarrow> (Inl e, d')
         | (Inr both_subnet_versions, d') \<Rightarrow>
             if reallocated_ips = [] \<and> both_subnet_versions = []
               then (Inl IpAddressGenerationFailure, d')
             else if strat = BOTH_REQUIRED \<and>
                     length reallocated_ips + length both_subnet_versions < 2
               then (Inl IpAddressGenerationFailure, d')
             else (Inr both_subnet_versions, d')))"

section \<open>The orchestrator\<close>

text \<open>
  Modelled from the spec: quark/exceptions.py is not among the sources; the spec lists
  \<open>IPAddressRetryableFailure\<close> and \<open>IPAddressPolicyRetryableFailure\<close> as the retryable kinds
  that are caught inside the engine, the second being a kind of the first.
\<close>

definition is_IPAddressRetryableFailure :: "error \<Rightarrow> bool" where
  "is_IPAddressRetryableFailure e =
     (e = IPAddressRetryableFailure \<or> e = IPAddressPolicyRetryableFailure)"

text \<open>
  The subnets of one attempt of \<open>_try_allocate_ip_address\<close>: chosen by the strategy, or the
  pinned subnet \<open>sub\<close> if one is given.
\<close>

definition try_allocate_subnets ::
  "strategy \<Rightarrow> string \<Rightarrow> int option \<Rightarrow> string option \<Rightarrow> ipaddr option \<Rightarrow> string option \<Rightarrow>
     'g engine \<Rightarrow> (error + subnet option list) \<times> db" where
  "try_allocate_subnets strat net_id version segment_id ip_addr sub st =
     (if \<not> truthy_str sub then
        (case choose_available_subnet strat net_id version segment_id ip_addr
                (new_addresses st) (store st) of
           (Inl e, d') \<Rightarrow> (Inl e, d')
         | (Inr chosen, d') \<Rightarrow> (Inr (map Some chosen), d'))
      else
        (case select_subnet net_id ip_addr segment_id (Some [the sub]) None (store st) of
           (Inl e, d') \<Rightarrow> (Inl e, d')
         | (Inr chosen, d') \<Rightarrow> (Inr [chosen], d')))"

text \<open>
  \<open>_try_allocate_ip_address\<close>, the number of attempts left as its first argument. \<open>sub\<close> is
  the id of a pinned subnet. Only the allocation from the subnets stands inside the \<open>try\<close>.
\<close>

fun try_allocate_ip_address ::
  "nat \<Rightarrow> 'g random \<Rightarrow> conf \<Rightarrow> strategy \<Rightarrow> request_context \<Rightarrow> string \<Rightarrow> int \<Rightarrow> int \<Rightarrow>
     string option \<Rightarrow> int option \<Rightarrow> kwargs \<Rightarrow> ipaddr option \<Rightarrow> string option \<Rightarrow> 'g engine \<Rightarrow>
     (error + unit) \<times> 'g engine" where
  "try_allocate_ip_address 0 rnd cf strat ctx net_id port_id reuse_after segment_id version kw
       ip_addr sub st = (Inr (), st)"
| "try_allocate_ip_address (Suc n) rnd cf strat ctx net_id port_id reuse_after segment_id version kw
       ip_addr sub st =
     (case try_allocate_subnets strat net_id version segment_id ip_addr sub
             (make_entry ''_try_allocate_ip_address'' st) of
        (Inl e, d') \<Rightarrow> (Inl e, (make_entry ''_try_allocate_ip_address'' st)\<lparr>store := d'\<rparr>)
      | (Inr chosen_subnets, d') \<Rightarrow>
          (case allocate_ips_from_subnets rnd cf ctx net_id chosen_subnets port_id reuse_after
                  ip_addr kw ((make_entry ''_try_allocate_ip_address'' st)\<lparr>store := d'\<rparr>) of
             (Inl e, st2) \<Rightarrow>
               if is_IPAddressRetryableFailure e
                 then try_allocate_ip_address n rnd cf strat ctx net_id port_id reuse_after
                        segment_id version kw ip_addr sub (attempt_failed st2)
               else (Inl e, st2)
           | (Inr u, st2) \<Rightarrow> (Inr (), st2)))"

fun izip_longest :: "'a list \<Rightarrow> 'b list \<Rightarrow> ('a option \<times> 'b option) list" where
  "izip_longest [] [] = []"
| "izip_longest (x # xs) [] = (Some x, None) # izip_longest xs []"
| "izip_longest [] (y # ys) = (None, Some y) # izip_longest [] ys"
| "izip_longest (x # xs) (y # ys) = (Some x, Some y) # izip_longest xs ys"

text \<open>The reuse phase of \<open>allocate_ip_address\<close>: one call per requested address.\<close>

fun try_reallocate_each ::
  "ipaddr option list \<Rightarrow> strategy \<Rightarrow> conf \<Rightarrow> request_context \<Rightarrow> string \<Rightarrow> int \<Rightarrow>
     string option \<Rightarrow> string list \<Rightarrow> kwargs \<Rightarrow> 'g engine \<Rightarrow> (error + unit) \<times> 'g engine" where
  "try_reallocate_each [] strat cf ctx net_id reuse_after segment_id subnet_ids kw st = (Inr (), st)"
| "try_reallocate_each (ip_addr # rest) strat cf ctx net_id reuse_after segment_id subnet_ids kw st =
     (case strategy_attempt_to_reallocate_ip strat cf ctx net_id reuse_after VerNone ip_addr
             segment_id subnet_ids kw st of
        (Inl e, st') \<Rightarrow> (Inl e, st')
      | (Inr addresses, st') \<Rightarrow>
          try_reallocate_each rest strat cf ctx net_id reuse_after segment_id subnet_ids kw
            (st'\<lparr>new_addresses := new_addresses st' @ addresses\<rparr>))"

text \<open>The create phase: one call of \<open>_try_allocate_ip_address\<close> per pair.\<close>

fun try_allocate_each ::
  "(ipaddr option \<times> string option) list \<Rightarrow> 'g random \<Rightarrow> conf \<Rightarrow> strategy \<Rightarrow> request_context \<Rightarrow>
     string \<Rightarrow> int \<Rightarrow> int \<Rightarrow> string option \<Rightarrow> int option \<Rightarrow> kwargs \<Rightarrow> 'g engine \<Rightarrow>
     (error + unit) \<times> 'g engine" where
  "try_allocate_each [] rnd cf strat ctx net_id port_id reuse_after segment_id version kw st =
     (Inr (), st)"
| "try_allocate_each ((ip_addr, sub) # rest) rnd cf strat ctx net_id port_id reuse_after segment_id
       version kw st =
     (case try_allocate_ip_address (ip_address_retry_max cf) rnd cf strat ctx net_id port_id
             reuse_after segment_id version kw ip_addr sub st of
        (Inl e, st') \<Rightarrow> (Inl e, st')
      | (Inr u, st') \<Rightarrow>
          try_allocate_each rest rnd cf strat ctx net_id port_id reuse_after segment_id version
            kw st')"

definition notify_new_addresses :: "'g engine \<Rightarrow> 'g engine" where
  "notify_new_addresses st = st\<lparr>notifications := notifications st @ new_addresses st\<rparr>"

text \<open>
  \<open>allocate_ip_address\<close>. The list \<open>new_addresses\<close> of the caller is the field of the state;
  \<open>Inr ()\<close> is the plain return.
\<close>

definition allocate_ip_address ::
  "'g random \<Rightarrow> conf \<Rightarrow> strategy \<Rightarrow> request_context \<Rightarrow> string \<Rightarrow> int \<Rightarrow> int \<Rightarrow>
     string option \<Rightarrow> int option \<Rightarrow> ipaddr list \<Rightarrow> string list \<Rightarrow> kwargs \<Rightarrow> 'g engine \<Rightarrow>
     (error + unit) \<times> 'g engine" where
  "allocate_ip_address rnd cf strat ctx net_id port_id reuse_after segment_id version ip_addresses
       subnet_ids kw st =
     (case try_reallocate_each (if ip_addresses \<noteq> [] then map Some ip_addresses else [None])
             strat cf ctx net_id reuse_after segment_id subnet_ids kw st of
        (Inl e, st1) \<Rightarrow> (Inl e, st1)
      | (Inr u, st1) \<Rightarrow>
     (case is_strategy_satisfied strat (new_addresses st1) False of
        Inl e \<Rightarrow> (Inl e, st1)
      | Inr True \<Rightarrow> (Inr (), st1)
      | Inr False \<Rightarrow>
     (case try_allocate_each
             (if ip_addresses \<noteq> [] \<or> subnet_ids \<noteq> [] then izip_longest ip_addresses subnet_ids
              else [(None, None)])
             rnd cf strat ctx net_id port_id reuse_after segment_id version kw st1 of
        (Inl e, st2) \<Rightarrow> (Inl e, st2)
      | (Inr u, st2) \<Rightarrow>
     (case is_strategy_satisfied strat (new_addresses st2) True of
        Inl e \<Rightarrow> (Inl e, st2)
      | Inr True \<Rightarrow> (Inr (), notify_new_addresses st2)
      | Inr False \<Rightarrow> (Inl IpAddressGenerationFailure, st2)))))"

section \<open>Example data\<close>

text \<open>
  The subnet \<open>10.0.0.0/29\<close> with the policy that excludes \<open>10.0.0.0\<close> and \<open>10.0.0.7\<close>, its
  cursor at the first address; \<open>first_ip\<close>, \<open>last_ip\<close> and the cursor are values of
  IPv4-mapped addresses.
\<close>

definition net_10_0_0_0_29 :: ipnet where
  "net_10_0_0_0_29 = \<lparr>net_version = 4, net_value = 0x0A000000, net_prefixlen = 29\<rparr>"

definition policy_10_0_0_0_29 :: ip_policy where
  "policy_10_0_0_0_29 =
     \<lparr>ip_policy_size = 2,
      policy_exclude =
        [\<lparr>net_version = 4, net_value = 0x0A000000, net_prefixlen = 32\<rparr>,
         \<lparr>net_version = 4, net_value = 0x0A000007, net_prefixlen = 32\<rparr>]\<rparr>"

definition subnet_v4 :: subnet where
  "subnet_v4 =
     \<lparr>s_id = ''subnet-4'', s_network_id = ''net-1'', s_cidr = net_10_0_0_0_29,
      s_first_ip = 0xFFFF0A000000, s_last_ip = 0xFFFF0A000007, s_ip_version = 4,
      s_next_auto_assign_ip = 0xFFFF0A000000, s_segment_id = None, s_do_not_use = False,
      s_ip_policy = Some policy_10_0_0_0_29\<rparr>"

definition empty_db :: db where
  "empty_db =
     \<lparr>quark_subnets = [], quark_ip_addresses = [], quark_mac_address_ranges = [],
      quark_mac_addresses = [], transactions = 0, utcnow = 1000, ip_claims = [],
      row_order = []\<rparr>"

definition db_v4 :: db where
  "db_v4 = empty_db\<lparr>quark_subnets := [subnet_v4]\<rparr>"

text \<open>
  The subnet \<open>2001:db8::/64\<close> without a policy, a store with both subnets, and a port of
  tenant \<open>tenant-1\<close> with the MAC \<open>52:54:00:12:34:56\<close>.
\<close>

definition net_2001_db8_64 :: ipnet where
  "net_2001_db8_64 =
     \<lparr>net_version = 6, net_value = 0x20010db8000000000000000000000000, net_prefixlen = 64\<rparr>"

definition subnet_v6 :: subnet where
  "subnet_v6 =
     \<lparr>s_id = ''subnet-6'', s_network_id = ''net-1'', s_cidr = net_2001_db8_64,
      s_first_ip = 0x20010db8000000000000000000000000,
      s_last_ip = 0x20010db800000000ffffffffffffffff, s_ip_version = 6,
      s_next_auto_assign_ip = 0x20010db8000000000000000000000000, s_segment_id = None,
      s_do_not_use = False, s_ip_policy = None\<rparr>"

definition db_dual :: db where
  "db_dual = empty_db\<lparr>quark_subnets := [subnet_v4, subnet_v6]\<rparr>"

definition example_conf :: conf where
  "example_conf =
     \<lparr>v6_allocation_attempts = 10, mac_address_retry_max = 20, ip_address_retry_max = 20\<rparr>"

definition tenant_ctx :: request_context where
  "tenant_ctx = \<lparr>tenant_id = ''tenant-1'', is_admin = False\<rparr>"

definition mac_52_54_00_12_34_56 :: mac_address where
  "mac_52_54_00_12_34_56 =
     \<lparr>m_address = 0x525400123456, m_mac_address_range_id = Some ''range-1'',
      m_tenant_id = ''tenant-1'', m_deallocated = False, m_deallocated_at = None,
      m_transaction_id = None\<rparr>"

definition port_kwargs :: kwargs where
  "port_kwargs = \<lparr>kw_address_type = None, kw_mac_address = Some mac_52_54_00_12_34_56\<rparr>"

definition engine_on :: "db \<Rightarrow> int engine" where
  "engine_on d =
     \<lparr>store = d, new_addresses = [], entries = [], notifications = [], random_state = 0\<rparr>"

definition ip_10_0_0_3 :: ipaddr where
  "ip_10_0_0_3 = \<lparr>addr_version = 4, addr_value = 0x0A000003\<rparr>"

text \<open>
  The address \<open>10.0.0.3\<close> of the v4 subnet, released 500 seconds before the time of the
  store, and a store that holds it.
\<close>

definition row_10_0_0_3 :: ip_address where
  "row_10_0_0_3 =
     \<lparr>a_address = 0xFFFF0A000003, a_version = 4, a_subnet_id = Some ''subnet-4'',
      a_network_id = ''net-1'', a_used_by_tenant_id = ''tenant-0'', a_allocated_at = Some 100,
      a_deallocated = True, a_deallocated_at = Some 500, a_address_type = None,
      a_transaction_id = None\<rparr>"

definition db_released :: db where
  "db_released = db_dual\<lparr>quark_ip_addresses := [row_10_0_0_3]\<rparr>"

definition small_conf :: conf where
  "small_conf =
     \<lparr>v6_allocation_attempts = 2, mac_address_retry_max = 2, ip_address_retry_max = 2\<rparr>"

text \<open>
  A MAC range and a released MAC row in it; the range marked \<open>do_not_use\<close> in the first
  store and usable in the second.
\<close>

definition range_forbidden :: mac_address_range where
  "range_forbidden =
     \<lparr>r_id = ''range-1'', r_first_address = 0x525400000000, r_last_address = 0x525400ffffff,
      r_next_auto_assign_mac = 0x525400123457, r_do_not_use = True\<rparr>"

definition mac_released :: mac_address where
  "mac_released = mac_52_54_00_12_34_56\<lparr>m_deallocated := True, m_deallocated_at := Some 500\<rparr>"

definition db_mac_forbidden :: db where
  "db_mac_forbidden =
     empty_db\<lparr>quark_mac_address_ranges := [range_forbidden], quark_mac_addresses := [mac_released]\<rparr>"

definition db_mac_usable :: db where
  "db_mac_usable =
     empty_db\<lparr>quark_mac_address_ranges := [range_forbidden\<lparr>r_do_not_use := False\<rparr>],
              quark_mac_addresses := [mac_released]\<rparr>"

text \<open>
  The order the subnet selector is specified to see: by version, then by residual capacity,
  the size \<open>last_ip - first_ip\<close> less the count of the row.
\<close>

definition residual :: "subnet \<times> nat \<Rightarrow> int" where
  "residual row = (s_last_ip (fst row) - s_first_ip (fst row)) - int (snd row)"

definition most_full_first :: "subnet \<times> nat \<Rightarrow> subnet \<times> nat \<Rightarrow> bool" where
  "most_full_first row row' =
     (s_ip_version (fst row) < s_ip_version (fst row') \<or>
      (s_ip_version (fst row) = s_ip_version (fst row') \<and> residual row \<le> residual row'))"

text \<open>
  Two subnets that differ only in their ids and a store that holds them; a store with
  subnets of both versions and one allocated address, \<open>10.0.0.3\<close>.
\<close>

definition subnet_a :: subnet where
  "subnet_a = subnet_v4\<lparr>s_id := ''subnet-a''\<rparr>"

definition subnet_b :: subnet where
  "subnet_b = subnet_v4\<lparr>s_id := ''subnet-b''\<rparr>"

definition db_tie :: db where
  "db_tie = empty_db\<lparr>quark_subnets := [subnet_a, subnet_b]\<rparr>"

definition db_three :: db where
  "db_three =
     empty_db\<lparr>quark_subnets := [subnet_v6, subnet_b, subnet_v4],
              quark_ip_addresses := [row_10_0_0_3\<lparr>a_deallocated := False, a_deallocated_at := None\<rparr>]\<rparr>"

text \<open>The cidr \<open>2001:db8::1/64\<close>, written with a host bit.\<close>

definition net_2001_db8_1_64 :: ipnet where
  "net_2001_db8_1_64 = net_2001_db8_64\<lparr>net_value := 0x20010db8000000000000000000000001\<rparr>"

text \<open>
  The v4 subnet as \<open>select_subnet\<close> hands it on after two advances of the cursor, and the
  address \<open>10.0.0.7\<close>, which the policy of the subnet excludes.
\<close>

definition subnet_v4_selected :: subnet where
  "subnet_v4_selected = subnet_v4\<lparr>s_next_auto_assign_ip := 0xFFFF0A000002\<rparr>"

definition ip_10_0_0_7 :: ipaddr where
  "ip_10_0_0_7 = \<lparr>addr_version = 4, addr_value = 0x0A000007\<rparr>"

text \<open>
  The address \<open>10.0.0.1\<close>, held by another tenant, in a store whose v4 subnet has its cursor
  at that address.
\<close>

definition ip_10_0_0_1 :: ipaddr where
  "ip_10_0_0_1 = \<lparr>addr_version = 4, addr_value = 0x0A000001\<rparr>"

definition row_10_0_0_1 :: ip_address where
  "row_10_0_0_1 =
     \<lparr>a_address = 0xFFFF0A000001, a_version = 4, a_subnet_id = Some ''subnet-4'',
      a_network_id = ''net-1'', a_used_by_tenant_id = ''tenant-0'', a_allocated_at = Some 100,
      a_deallocated = False, a_deallocated_at = None, a_address_type = Some ''fixed'',
      a_transaction_id = None\<rparr>"

definition db_taken :: db where
  "db_taken =
     empty_db\<lparr>quark_subnets := [subnet_v4\<lparr>s_next_auto_assign_ip := 0xFFFF0A000001\<rparr>],
              quark_ip_addresses := [row_10_0_0_1]\<rparr>"

text \<open>The address \<open>0.0.0.0\<close>, which is false in Python.\<close>

definition ip_0_0_0_0 :: ipaddr where
  "ip_0_0_0_0 = \<lparr>addr_version = 4, addr_value = 0\<rparr>"

section \<open>The cursor never moves back\<close>

lemma length_cursor_step:
  "length (quark_subnets (cursor_step u subnet d)) = length (quark_subnets d)"
  by (cases u) (simp_all add: subnet_update_next_auto_assign_ip_def subnet_update_set_full_def)

lemma cursor_step_full:
  "i < length (quark_subnets d) \<Longrightarrow> cursor d i = -1 \<Longrightarrow> cursor (cursor_step u subnet d) i = -1"
  by (cases u)
     (simp_all add: cursor_def subnet_update_next_auto_assign_ip_def subnet_update_set_full_def
        cursor_open_def)

lemma cursor_step_cases:
  "i < length (quark_subnets d) \<Longrightarrow>
   cursor (cursor_step u subnet d) i =
     (if cursor_open subnet (quark_subnets d ! i)
      then (case u of AutoAssign \<Rightarrow> cursor d i + 1 | SetFull \<Rightarrow> -1)
      else cursor d i)"
  by (cases u)
     (simp_all add: cursor_def subnet_update_next_auto_assign_ip_def subnet_update_set_full_def)

lemma cursor_trace_full:
  "i < length (quark_subnets d) \<Longrightarrow> cursor d i = -1 \<Longrightarrow> x \<in> set (cursor_trace i us d) \<Longrightarrow> x = -1"
proof (induction us arbitrary: d)
  case Nil
  then show ?case by simp
next
  case (Cons a us)
  obtain u subnet where a: "a = (u, subnet)" by (cases a)
  from Cons.prems show ?case
    using Cons.IH [of "cursor_step u subnet d"] cursor_step_full [of i d u subnet]
    by (auto simp: a length_cursor_step)
qed

lemma cursor_trace_lower:
  "i < length (quark_subnets d) \<Longrightarrow> x \<in> set (cursor_trace i us d) \<Longrightarrow> x = -1 \<or> cursor d i \<le> x"
proof (induction us arbitrary: d)
  case Nil
  then show ?case by simp
next
  case (Cons a us)
  obtain u subnet where a: "a = (u, subnet)" by (cases a)
  have step: "cursor (cursor_step u subnet d) i = -1 \<or> cursor d i \<le> cursor (cursor_step u subnet d) i"
    using cursor_step_cases [OF Cons.prems(1), of u subnet] by (cases u) auto
  from Cons.prems have "x = cursor d i \<or> x \<in> set (cursor_trace i us (cursor_step u subnet d))"
    by (simp add: a)
  then show ?case
  proof
    assume "x = cursor d i" then show ?thesis by simp
  next
    assume x: "x \<in> set (cursor_trace i us (cursor_step u subnet d))"
    have len: "i < length (quark_subnets (cursor_step u subnet d))"
      using Cons.prems(1) by (simp add: length_cursor_step)
    from Cons.IH [OF len x] have "x = -1 \<or> cursor (cursor_step u subnet d) i \<le> x" .
    moreover have "cursor (cursor_step u subnet d) i = -1 \<Longrightarrow> x = -1"
      using cursor_trace_full [OF len _ x] by simp
    ultimately show ?thesis using step by auto
  qed
qed

lemma cursor_trace_nth:
  "i < length (quark_subnets d) \<Longrightarrow> j \<le> k \<Longrightarrow> k < length (cursor_trace i us d) \<Longrightarrow>
   (cursor_trace i us d ! j = -1 \<longrightarrow> cursor_trace i us d ! k = -1) \<and>
   (cursor_trace i us d ! k \<noteq> -1 \<longrightarrow> cursor_trace i us d ! j \<le> cursor_trace i us d ! k)"
proof (induction us arbitrary: d j k)
  case Nil
  then show ?case by simp
next
  case (Cons a us)
  obtain u subnet where a: "a = (u, subnet)" by (cases a)
  let ?d = "cursor_step u subnet d"
  have len: "i < length (quark_subnets ?d)"
    using Cons.prems(1) by (simp add: length_cursor_step)
  show ?case
  proof (cases j)
    case 0
    have mem: "(cursor_trace i (a # us) d) ! k \<in> set (cursor_trace i (a # us) d)"
      using Cons.prems(3) by (rule nth_mem)
    have hd: "cursor_trace i (a # us) d ! 0 = cursor d i" by (simp add: a)
    show ?thesis
      using cursor_trace_full [OF Cons.prems(1) _ mem] cursor_trace_lower [OF Cons.prems(1) mem]
      by (auto simp: 0 hd)
  next
    case (Suc j')
    then obtain k' where k: "k = Suc k'" using Cons.prems(2) by (cases k) auto
    have "j' \<le> k'" "k' < length (cursor_trace i us ?d)"
      using Cons.prems(2,3) by (simp_all add: Suc k a)
    from Cons.IH [OF len this] show ?thesis by (simp add: Suc k a)
  qed
qed

text \<open>
  C9. Take the two updates as the steps of the cursor of a subnet row. A step from a cursor
  of -1 leaves it at -1. A step aimed at the row, from a cursor other than -1, adds 1
  (\<open>subnet_update_next_auto_assign_ip\<close>) or sets -1 (\<open>subnet_update_set_full\<close>); a step aimed at
  another subnet leaves the cursor alone. Hence along any run of steps, once the cursor is
  -1 it stays -1, and any later value other than -1 is at least every earlier value.
\<close>

theorem cursor_monotone_until_full:
  assumes "i < length (quark_subnets d)"
  shows "(cursor d i = -1 \<longrightarrow> cursor (cursor_step u subnet d) i = -1) \<and>
         (cursor d i \<noteq> -1 \<and> s_id (quark_subnets d ! i) = s_id subnet \<longrightarrow>
            cursor (cursor_step u subnet d) i =
              (case u of AutoAssign \<Rightarrow> cursor d i + 1 | SetFull \<Rightarrow> -1)) \<and>
         (s_id (quark_subnets d ! i) \<noteq> s_id subnet \<longrightarrow>
            cursor (cursor_step u subnet d) i = cursor d i) \<and>
         (\<forall>j k. j \<le> k \<and> k < length (cursor_trace i us d) \<longrightarrow>
            (cursor_trace i us d ! j = -1 \<longrightarrow> cursor_trace i us d ! k = -1) \<and>
            (cursor_trace i us d ! k \<noteq> -1 \<longrightarrow>
               cursor_trace i us d ! j \<le> cursor_trace i us d ! k))"
proof -
  have a: "cursor d i = -1 \<longrightarrow> cursor (cursor_step u subnet d) i = -1"
    using assms cursor_step_full by blast
  have b: "cursor d i \<noteq> -1 \<and> s_id (quark_subnets d ! i) = s_id subnet \<longrightarrow>
            cursor (cursor_step u subnet d) i =
              (case u of AutoAssign \<Rightarrow> cursor d i + 1 | SetFull \<Rightarrow> -1)"
    using cursor_step_cases [OF assms, of u subnet] by (auto simp: cursor_open_def cursor_def)
  have c: "s_id (quark_subnets d ! i) \<noteq> s_id subnet \<longrightarrow>
            cursor (cursor_step u subnet d) i = cursor d i"
    using cursor_step_cases [OF assms, of u subnet] by (auto simp: cursor_open_def)
  have t: "\<forall>j k. j \<le> k \<and> k < length (cursor_trace i us d) \<longrightarrow>
            (cursor_trace i us d ! j = -1 \<longrightarrow> cursor_trace i us d ! k = -1) \<and>
            (cursor_trace i us d ! k \<noteq> -1 \<longrightarrow>
               cursor_trace i us d ! j \<le> cursor_trace i us d ! k)"
    using cursor_trace_nth [OF assms] by blast
  from a b c t show ?thesis by blast
qed

theorem cursor_monotone_until_full_witness:
  "0 < length (quark_subnets db_v4) \<and>
   cursor db_v4 0 = 0xFFFF0A000000 \<and>
   cursor (cursor_step AutoAssign subnet_v4 db_v4) 0 = 0xFFFF0A000001 \<and>
   cursor_trace 0 [(AutoAssign, subnet_v4), (SetFull, subnet_v4), (AutoAssign, subnet_v4)] db_v4
     = [0xFFFF0A000000, 0xFFFF0A000001, -1, -1] \<and>
   cursor_trace 0 [(AutoAssign, subnet_v4), (SetFull, subnet_v4), (AutoAssign, subnet_v4)] db_v4 ! 0
     \<le> cursor_trace 0 [(AutoAssign, subnet_v4), (SetFull, subnet_v4), (AutoAssign, subnet_v4)] db_v4 ! 1"
proof -
  have h: "0 < length (quark_subnets db_v4)"
    by (simp add: db_v4_def empty_db_def)
  have c: "cursor db_v4 0 = 0xFFFF0A000000"
    by (simp add: cursor_def db_v4_def empty_db_def subnet_v4_def)
  have s: "s_id (quark_subnets db_v4 ! 0) = s_id subnet_v4"
    by (simp add: db_v4_def empty_db_def)
  have t: "cursor_trace 0 [(AutoAssign, subnet_v4), (SetFull, subnet_v4), (AutoAssign, subnet_v4)] db_v4
      = [0xFFFF0A000000, 0xFFFF0A000001, -1, -1]"
    by (simp add: cursor_def db_v4_def empty_db_def subnet_v4_def
        subnet_update_next_auto_assign_ip_def subnet_update_set_full_def cursor_open_def)
  show ?thesis
    using cursor_monotone_until_full [OF h, of AutoAssign subnet_v4
        "[(AutoAssign, subnet_v4), (SetFull, subnet_v4), (AutoAssign, subnet_v4)]"] h c s t
    by simp
qed

section \<open>BOTH_REQUIRED returns both versions\<close>

lemma remove1_empty_singleton: "x \<in> set xs \<Longrightarrow> remove1 x xs = [] \<Longrightarrow> xs = [x]"
  by (cases xs) (auto split: if_splits)

lemma both_required_loop_True:
  "both_required_loop req ips = Inr True \<Longrightarrow> v \<in> set req \<Longrightarrow> \<exists>a\<in>set ips. a_version a = v"
proof (induction ips arbitrary: req)
  case Nil
  then show ?case by simp
next
  case (Cons ip ips)
  show ?case
  proof (cases "a_version ip \<in> set req")
    case False
    with Cons.prems show ?thesis by simp
  next
    case mem: True
    show ?thesis
    proof (cases "remove1 (a_version ip) req = []")
      case True
      with mem have "req = [a_version ip]" by (simp add: remove1_empty_singleton)
      with Cons.prems(2) show ?thesis by simp
    next
      case False
      with mem Cons.prems(1)
      have rest: "both_required_loop (remove1 (a_version ip) req) ips = Inr True" by simp
      show ?thesis
      proof (cases "v = a_version ip")
        case True
        then show ?thesis by simp
      next
        case False
        with Cons.prems(2) have "v \<in> set (remove1 (a_version ip) req)" by simp
        from Cons.IH [OF rest this] show ?thesis by auto
      qed
    qed
  qed
qed

text \<open>
  C1. Whenever \<open>allocate_ip_address\<close> returns without raising under \<open>BOTH_REQUIRED\<close>, the
  list \<open>new_addresses\<close> it leaves holds an address of version 4 and an address of version 6.
\<close>

theorem both_required_returns_both_versions:
  assumes "allocate_ip_address rnd cf BOTH_REQUIRED ctx net_id port_id reuse_after segment_id
             version ip_addresses subnet_ids kw st = (Inr (), st')"
  shows "(\<exists>a\<in>set (new_addresses st'). a_version a = 4) \<and>
         (\<exists>a\<in>set (new_addresses st'). a_version a = 6)"
proof -
  have sat: "both_required_loop [4, 6] (new_addresses st') = Inr True"
    using assms
    by (auto simp: allocate_ip_address_def is_strategy_satisfied_def notify_new_addresses_def
          split: prod.splits sum.splits bool.splits if_splits)
  show ?thesis
    using both_required_loop_True [OF sat, of 4] both_required_loop_True [OF sat, of 6] by simp
qed

theorem both_required_returns_both_versions_witness:
  "fst (allocate_ip_address counter_random example_conf BOTH_REQUIRED tenant_ctx ''net-1'' 7 0
          None None [] [] port_kwargs (engine_on db_dual)) = Inr () \<and>
   map a_version
     (new_addresses
        (snd (allocate_ip_address counter_random example_conf BOTH_REQUIRED tenant_ctx ''net-1''
                7 0 None None [] [] port_kwargs (engine_on db_dual)))) = [4, 6] \<and>
   (\<exists>a\<in>set (new_addresses
        (snd (allocate_ip_address counter_random example_conf BOTH_REQUIRED tenant_ctx ''net-1''
                7 0 None None [] [] port_kwargs (engine_on db_dual)))). a_version a = 6)"
proof -
  let ?r = "allocate_ip_address counter_random example_conf BOTH_REQUIRED tenant_ctx ''net-1''
              7 0 None None [] [] port_kwargs (engine_on db_dual)"
  have ok: "fst ?r = Inr ()"
    by code_simp
  have vs: "map a_version (new_addresses (snd ?r)) = [4, 6]"
    by code_simp
  have eq: "?r = (Inr (), snd ?r)"
    using ok by (simp add: prod_eq_iff)
  show ?thesis
    using both_required_returns_both_versions [OF eq] ok vs by simp
qed

section \<open>The filters of the IP claim\<close>

lemma listify_version_or_both: "listify_version (version_or_both version) \<noteq> None"
  by (cases version) (auto simp: listify_version_def version_or_both_def)

text \<open>What the primitives of an attempt do to the store.\<close>

lemma transaction_create_eq:
  "transaction_create d = (t, d1) \<Longrightarrow>
   t = Suc (transactions d) \<and> d1 = d\<lparr>transactions := Suc (transactions d)\<rparr>"
  by (auto simp: transaction_create_def)

lemma ip_address_reallocate_Inl:
  "ip_address_reallocate d ctx u filters = Inl e \<Longrightarrow>
   model_query_IPAddress ctx (utcnow d) filters = Inl e"
  by (auto simp: ip_address_reallocate_def split: sum.splits prod.splits)

lemma ip_address_reallocate_Inr:
  "ip_address_reallocate d ctx u filters = Inr (result, d2) \<Longrightarrow>
   \<exists>conds n rows.
     model_query_IPAddress ctx (utcnow d) filters = Inr conds \<and>
     update_limit (ip_matches conds) u (quark_ip_addresses d) = (n, rows) \<and>
     result = (n = 1) \<and>
     d2 = d\<lparr>quark_ip_addresses := rows, ip_claims := ip_claims d @ [conds]\<rparr>"
  by (auto simp: ip_address_reallocate_def split: sum.splits prod.splits)

lemma ip_address_reallocate_find_store:
  "ip_address_reallocate_find d ctx t = Inr (found, d3) \<Longrightarrow>
   utcnow d3 = utcnow d \<and> ip_claims d3 = ip_claims d \<and> transactions d3 = transactions d \<and>
   quark_subnets d3 = quark_subnets d \<and>
   set (quark_ip_addresses d3) \<subseteq> set (quark_ip_addresses d)"
  by (auto simp: ip_address_reallocate_find_def split: sum.splits option.splits if_splits
        dest: set_mp [OF set_remove1_subset])

lemma entries_make_entry: "entries (make_entry n st) = entries st @ [(n, True)]"
  by (simp add: make_entry_def)

lemma store_make_entry: "store (make_entry n st) = store st"
  by (simp add: make_entry_def)

lemma store_attempt_failed: "store (attempt_failed st) = store st"
  by (simp add: attempt_failed_def split: list.splits)

lemma length_attempt_failed: "length (entries (attempt_failed st)) = length (entries st)"
  by (cases "rev (entries st)")
     (auto simp: attempt_failed_def dest: arg_cong [where f = length])

lemma reallocate_ip_loop_claims:
  assumes "reallocate_ip_loop n ctx kw ip_kwargs st = (addresses, st')"
    and "model_query_IPAddress (elevated ctx) (utcnow (store st)) ip_kwargs = Inr conds"
  shows "length (entries st) \<le> length (entries st') \<and>
         ip_claims (store st') =
           ip_claims (store st) @ replicate (length (entries st') - length (entries st)) conds"
  using assms
proof (induction n arbitrary: st)
  case 0
  then show ?case by simp
next
  case (Suc n)
  let ?st1 = "make_entry ''attempt_to_reallocate_ip'' st"
  obtain t d1 where c: "transaction_create (store ?st1) = (t, d1)"
    by (cases "transaction_create (store ?st1)")
  then have d1: "d1 = (store st)\<lparr>transactions := Suc (transactions (store st))\<rparr>"
    by (auto simp: transaction_create_def store_make_entry)
  have q: "model_query_IPAddress (elevated ctx) (utcnow d1) ip_kwargs = Inr conds"
    using Suc.prems(2) d1 by simp
  obtain result d2 where r: "ip_address_reallocate d1 (elevated ctx)
      (reallocate_update_kwargs ctx kw t (utcnow d1)) ip_kwargs = Inr (result, d2)"
    using q
    by (cases "update_limit (ip_matches conds) (reallocate_update_kwargs ctx kw t (utcnow d1))
                 (quark_ip_addresses d1)")
       (auto simp: ip_address_reallocate_def)
  from ip_address_reallocate_Inr [OF r] q
  have d2: "ip_claims d2 = ip_claims (store st) @ [conds]" "utcnow d2 = utcnow (store st)"
    using d1 by auto
  show ?case
  proof (cases result)
    case False
    with Suc.prems(1) c r have "st' = attempt_failed (?st1\<lparr>store := d2\<rparr>)"
      by (simp add: Let_def)
    then show ?thesis using d2
      by (simp add: store_attempt_failed length_attempt_failed entries_make_entry)
  next
    case True
    show ?thesis
    proof (cases "ip_address_reallocate_find d2 (elevated ctx) t")
      case (Inl e)
      with Suc.prems(1) c r True
      have l: "reallocate_ip_loop n ctx kw ip_kwargs (attempt_failed (?st1\<lparr>store := d2\<rparr>)) =
                 (addresses, st')"
        by (simp add: Let_def)
      from Suc.IH [OF l] d2 Suc.prems(2) show ?thesis
        apply (simp add: store_attempt_failed length_attempt_failed entries_make_entry)
        by (metis Suc_diff_Suc Suc_le_lessD replicate_Suc replicate_app_Cons_same append_Cons append_Nil append_assoc)
    next
      case (Inr p)
      obtain found d3 where p: "p = (found, d3)" by (cases p)
      from ip_address_reallocate_find_store [OF Inr [unfolded p]] d2
      have d3: "ip_claims d3 = ip_claims (store st) @ [conds]" "utcnow d3 = utcnow (store st)"
        by auto
      show ?thesis
      proof (cases found)
        case None
        with Suc.prems(1) c r True Inr p
        have l: "reallocate_ip_loop n ctx kw ip_kwargs (attempt_failed (?st1\<lparr>store := d3\<rparr>)) =
                   (addresses, st')"
          by (simp add: Let_def)
        from Suc.IH [OF l] d3 Suc.prems(2) show ?thesis
          apply (simp add: store_attempt_failed length_attempt_failed entries_make_entry)
          by (metis Suc_diff_Suc Suc_le_lessD replicate_Suc replicate_app_Cons_same append_Cons append_Nil append_assoc)
      next
        case (Some a)
        with Suc.prems(1) c r True Inr p have "st' = ?st1\<lparr>store := d3\<rparr>"
          by (simp add: Let_def)
        then show ?thesis using d3 by (simp add: entries_make_entry)
      qed
    qed
  qed
qed


lemma reallocate_ip_loop_no_claim:
  assumes "reallocate_ip_loop n ctx kw ip_kwargs st = (addresses, st')"
    and "model_query_IPAddress (elevated ctx) (utcnow (store st)) ip_kwargs = Inl e"
  shows "ip_claims (store st') = ip_claims (store st)"
  using assms
proof (induction n arbitrary: st)
  case 0
  then show ?case by simp
next
  case (Suc n)
  let ?st1 = "make_entry ''attempt_to_reallocate_ip'' st"
  obtain t d1 where c: "transaction_create (store ?st1) = (t, d1)"
    by (cases "transaction_create (store ?st1)")
  then have d1: "d1 = (store st)\<lparr>transactions := Suc (transactions (store st))\<rparr>"
    by (auto simp: transaction_create_def store_make_entry)
  have q: "model_query_IPAddress (elevated ctx) (utcnow d1) ip_kwargs = Inl e"
    using Suc.prems(2) d1 by simp
  then have r: "ip_address_reallocate d1 (elevated ctx)
      (reallocate_update_kwargs ctx kw t (utcnow d1)) ip_kwargs = Inl e"
    by (simp add: ip_address_reallocate_def)
  with Suc.prems(1) c
  have l: "reallocate_ip_loop n ctx kw ip_kwargs (attempt_failed (?st1\<lparr>store := d1\<rparr>)) =
             (addresses, st')"
    by (simp add: Let_def)
  from Suc.IH [OF l] Suc.prems(2) d1 show ?case
    by (simp add: store_attempt_failed)
qed

text \<open>
  The conditions that \<open>_model_query\<close> builds from the filters \<open>ip_kwargs\<close> of
  \<open>attempt_to_reallocate_ip\<close>.
\<close>

lemma model_query_reallocate_ip_kwargs:
  "model_query_IPAddress (elevated ctx) now
     (reallocate_ip_kwargs net_id reuse_after (version_or_both version) ip_address sub_ids) =
   (if ip_address \<noteq> None \<and> \<not> truthy_ip ip_address then Inl TypeError
    else Inr ([NetworkIdIn (listify net_id), DeallocatedAtLe (now - reuse_after)] @
              (if truthy_ip ip_address then [AddressIn [addr_value (ipv6 (the ip_address))]]
               else [DeallocatedEq True]) @
              [VersionIn (the (listify_version (version_or_both version)))] @
              (if sub_ids \<noteq> [] then [SubnetIdIn sub_ids] else [])))"
  using listify_version_or_both [of version]
  by (cases ip_address)
     (auto simp: model_query_IPAddress_def reallocate_ip_kwargs_def elevated_def truthy_ip_def)

text \<open>
  C4, as the code has it. Every claim that a call of \<open>attempt_to_reallocate_ip\<close> issues
  against the IPAddress table, one in each attempt of its loop (the attempts are the entries
  the call adds to its log), has these conditions: the network, \<open>reuse_after\<close>, the
  versions, the subnet ids when there are any, and then either the requested address (when
  one is given) or \<open>deallocated = true\<close> (when none is given), never both: the code deletes
  the \<open>deallocated\<close> key for a requested address. The store receives no other claim from
  the call; with a requested address that is false in Python the query cannot be built and
  no claim is issued.
\<close>

theorem reallocate_claim_filters:
  assumes "attempt_to_reallocate_ip cf ctx net_id reuse_after version ip_address segment_id
             subnet_ids kw st = (r, st')"
  shows "ip_claims (store st') =
           ip_claims (store st) @
           replicate
             (if ip_address \<noteq> None \<and> \<not> truthy_ip ip_address then 0
              else length (entries st') - length (entries st))
             ([NetworkIdIn (listify net_id),
               DeallocatedAtLe (utcnow (store st) - reuse_after)] @
              (if truthy_ip ip_address then [AddressIn [addr_value (ipv6 (the ip_address))]]
               else [DeallocatedEq True]) @
              [VersionIn (the (listify_version (version_or_both version)))] @
              (if reallocate_sub_ids (store st) net_id segment_id subnet_ids \<noteq> []
               then [SubnetIdIn (reallocate_sub_ids (store st) net_id segment_id subnet_ids)]
               else []))"
proof -
  let ?kwargs = "reallocate_ip_kwargs net_id reuse_after (version_or_both version) ip_address
                   (reallocate_sub_ids (store st) net_id segment_id subnet_ids)"
  let ?q = "model_query_IPAddress (elevated ctx) (utcnow (store st)) ?kwargs"
  let ?conds = "[NetworkIdIn (listify net_id),
               DeallocatedAtLe (utcnow (store st) - reuse_after)] @
              (if truthy_ip ip_address then [AddressIn [addr_value (ipv6 (the ip_address))]]
               else [DeallocatedEq True]) @
              [VersionIn (the (listify_version (version_or_both version)))] @
              (if reallocate_sub_ids (store st) net_id segment_id subnet_ids \<noteq> []
               then [SubnetIdIn (reallocate_sub_ids (store st) net_id segment_id subnet_ids)]
               else [])"
  consider (none) "st' = st"
    | (loop) addresses where
        "reallocate_ip_loop (ip_address_retry_max cf) ctx kw ?kwargs st = (addresses, st')"
    using assms by (auto simp: attempt_to_reallocate_ip_def split: if_splits prod.splits)
  then show ?thesis
  proof cases
    case none
    then show ?thesis by simp
  next
    case loop
    show ?thesis
    proof (cases "ip_address \<noteq> None \<and> \<not> truthy_ip ip_address")
      case True
      then have "?q = Inl TypeError"
        by (simp add: model_query_reallocate_ip_kwargs)
      from reallocate_ip_loop_no_claim [OF loop this] True show ?thesis by simp
    next
      case False
      then have q: "?q = Inr ?conds"
        by (simp add: model_query_reallocate_ip_kwargs)
      from reallocate_ip_loop_claims [OF loop q] have
        "ip_claims (store st') =
           ip_claims (store st) @ replicate (length (entries st') - length (entries st)) ?conds"
        by (rule conjunct2)
      then show ?thesis unfolding if_not_P [OF False] .
    qed
  qed
qed

theorem reallocate_claim_filters_witness:
  "ip_claims (store (snd (attempt_to_reallocate_ip small_conf tenant_ctx ''net-1'' 60 VerNone None
                            None [''subnet-4''] port_kwargs (engine_on db_released)))) =
     [[NetworkIdIn [''net-1''], DeallocatedAtLe 940, DeallocatedEq True, VersionIn [4, 6],
       SubnetIdIn [''subnet-4'']]] \<and>
   length (entries (snd (attempt_to_reallocate_ip small_conf tenant_ctx ''net-1'' 60 VerNone None
                            None [''subnet-4''] port_kwargs (engine_on db_released)))) = 1"
proof -
  let ?r = "attempt_to_reallocate_ip small_conf tenant_ctx ''net-1'' 60 VerNone None
              None [''subnet-4''] port_kwargs (engine_on db_released)"
  have n: "length (entries (snd ?r)) = 1"
    by code_simp
  have eq: "?r = (fst ?r, snd ?r)"
    by simp
  have "ip_claims (store (engine_on db_released)) = []" "utcnow (store (engine_on db_released)) = 1000"
    "entries (engine_on db_released) = []"
    by (simp_all add: engine_on_def db_released_def db_dual_def empty_db_def)
  with reallocate_claim_filters [OF eq] n show ?thesis
    by (simp add: truthy_ip_def listify_def listify_version_def version_or_both_def
          reallocate_sub_ids_def)
qed

text \<open>
  With the address \<open>10.0.0.3\<close> requested, the call claims the released row, and the
  conditions of the one claim it issued do not hold \<open>deallocated = true\<close>.
\<close>

theorem reallocate_claim_filters_explicit_ip:
  "fst (attempt_to_reallocate_ip small_conf tenant_ctx ''net-1'' 60 VerNone (Some ip_10_0_0_3)
          None [] port_kwargs (engine_on db_released)) =
     Inr [reallocate_update_kwargs tenant_ctx port_kwargs 1 1000 row_10_0_0_3] \<and>
   ip_claims (store (snd (attempt_to_reallocate_ip small_conf tenant_ctx ''net-1'' 60 VerNone
                            (Some ip_10_0_0_3) None [] port_kwargs (engine_on db_released)))) =
     [[NetworkIdIn [''net-1''], DeallocatedAtLe 940, AddressIn [0xFFFF0A000003],
       VersionIn [4, 6]]] \<and>
   DeallocatedEq True \<notin>
     set (concat (ip_claims (store (snd (attempt_to_reallocate_ip small_conf tenant_ctx ''net-1'' 60
                            VerNone (Some ip_10_0_0_3) None [] port_kwargs
                            (engine_on db_released))))))"
  by code_simp

section \<open>The reuse path returns at most one address\<close>

lemma update_limit_find:
  assumes "update_limit p u xs = (n, ys)" and "\<forall>x \<in> set xs. \<not> q x" and "\<forall>x. q (u x)"
  shows "(n = 0 \<and> ys = xs) \<or>
         (n = 1 \<and> (\<exists>r \<in> set xs. p r \<and> find q ys = Some (u r) \<and> set ys \<subseteq> insert (u r) (set xs)))"
  using assms
proof (induction xs arbitrary: n ys)
  case Nil
  then show ?case by simp
next
  case (Cons x xs)
  show ?case
  proof (cases "p x")
    case True
    with Cons.prems show ?thesis by auto
  next
    case False
    obtain m zs where u: "update_limit p u xs = (m, zs)"
      by (cases "update_limit p u xs")
    with False Cons.prems(1) have n: "n = m" "ys = x # zs" by auto
    from Cons.IH [OF u] Cons.prems(2,3)
    have "(m = 0 \<and> zs = xs) \<or>
         (m = 1 \<and> (\<exists>r \<in> set xs. p r \<and> find q zs = Some (u r) \<and> set zs \<subseteq> insert (u r) (set xs)))"
      by simp
    with n Cons.prems(2) show ?thesis by auto
  qed
qed

lemma ip_address_reallocate_find_Some:
  assumes "ip_address_reallocate_find d (elevated ctx) t = Inr (Some a, d')"
  shows "d' = d \<and> find (\<lambda>row. a_transaction_id row = Some t) (quark_ip_addresses d) = Some a \<and>
         (\<exists>subnet addr. subnet_of d a = Some subnet \<and> \<not> s_do_not_use subnet \<and>
            row_address subnet a = Inr addr \<and> \<not> row_in_policy subnet a \<and>
            in_net addr (s_cidr subnet))"
proof -
  have q: "model_query_IPAddress (elevated ctx) (utcnow d) (no_ip_filters\<lparr>f_transaction_id := Some t\<rparr>) =
             Inr [TransactionIdEq t]"
    by (simp add: model_query_IPAddress_def no_ip_filters_def truthy_ip_def elevated_def)
  have m: "ip_matches [TransactionIdEq t] = (\<lambda>row. a_transaction_id row = Some t)"
    by (simp add: ip_matches_def fun_eq_iff)
  from assms show ?thesis
    by (auto simp: ip_address_reallocate_find_def ip_address_find_def q m row_in_policy_def
          split: sum.splits option.splits if_splits)
qed

lemma find_Some_set: "find P xs = Some x \<Longrightarrow> x \<in> set xs \<and> P x"
  by (auto simp: find_Some_iff)

lemma reallocate_ip_loop_validated:
  assumes "reallocate_ip_loop n ctx kw ip_kwargs st = (addresses, st')"
  shows "transactions (store st) \<le> transactions (store st') \<and>
         (addresses = [] \<or>
          (\<exists>a t. addresses = [a] \<and> a \<in> set (quark_ip_addresses (store st')) \<and>
             a_transaction_id a = Some t \<and>
             transactions (store st) < t \<and> t \<le> transactions (store st') \<and>
             (\<exists>subnet addr. subnet_of (store st') a = Some subnet \<and> \<not> s_do_not_use subnet \<and>
                row_address subnet a = Inr addr \<and> \<not> row_in_policy subnet a \<and>
                in_net addr (s_cidr subnet))))"
  using assms
proof (induction n arbitrary: st)
  case 0
  then show ?case by simp
next
  case (Suc n)
  let ?st1 = "make_entry ''attempt_to_reallocate_ip'' st"
  obtain t d1 where c: "transaction_create (store ?st1) = (t, d1)"
    by (cases "transaction_create (store ?st1)")
  then have t: "t = Suc (transactions (store st))"
    and d1: "d1 = (store st)\<lparr>transactions := Suc (transactions (store st))\<rparr>"
    by (auto simp: transaction_create_def store_make_entry)
  let ?next = "\<lambda>d. reallocate_ip_loop n ctx kw ip_kwargs (attempt_failed (?st1\<lparr>store := d\<rparr>)) =
                 (addresses, st')"
  have step: ?case if l: "?next d" and d: "transactions d = t" for d
    using Suc.IH [OF l] d t by (auto simp: store_attempt_failed)
  show ?case
  proof (cases "ip_address_reallocate d1 (elevated ctx)
                  (reallocate_update_kwargs ctx kw t (utcnow d1)) ip_kwargs")
    case (Inl e)
    with Suc.prems c have "?next d1" by (simp add: Let_def)
    then show ?thesis by (rule step) (use d1 t in auto)
  next
    case (Inr p)
    obtain result d2 where p: "p = (result, d2)" by (cases p)
    from ip_address_reallocate_Inr [OF Inr [unfolded p]] d1 t
    have d2: "transactions d2 = t" by auto
    show ?thesis
    proof (cases result)
      case False
      with Suc.prems c Inr p have "addresses = []" "st' = attempt_failed (?st1\<lparr>store := d2\<rparr>)"
        by (simp_all add: Let_def)
      then show ?thesis using d2 t by (simp add: store_attempt_failed)
    next
      case True
      show ?thesis
      proof (cases "ip_address_reallocate_find d2 (elevated ctx) t")
        case (Inl e)
        with Suc.prems c Inr p True have "?next d2" by (simp add: Let_def)
        then show ?thesis using d2 by (rule step)
      next
        case f: (Inr p')
        obtain found d3 where p': "p' = (found, d3)" by (cases p')
        from ip_address_reallocate_find_store [OF f [unfolded p']] d2
        have d3: "transactions d3 = t" by simp
        show ?thesis
        proof (cases found)
          case None
          with Suc.prems c Inr p True f p' have "?next d3" by (simp add: Let_def)
          then show ?thesis using d3 by (rule step)
        next
          case (Some a)
          with Suc.prems c Inr p True f p'
          have r: "addresses = [a]" "st' = ?st1\<lparr>store := d3\<rparr>"
            by (simp_all add: Let_def)
          from ip_address_reallocate_find_Some [OF f [unfolded p' Some]]
          have "d3 = d2" "a \<in> set (quark_ip_addresses d3)" "a_transaction_id a = Some t"
            "\<exists>subnet addr. subnet_of d3 a = Some subnet \<and> \<not> s_do_not_use subnet \<and>
                row_address subnet a = Inr addr \<and> \<not> row_in_policy subnet a \<and>
                in_net addr (s_cidr subnet)"
            by (auto dest: find_Some_set)
          with r d3 t show ?thesis by simp
        qed
      qed
    qed
  qed
qed

lemma reallocate_ip_loop_claimed:
  assumes "reallocate_ip_loop n ctx kw ip_kwargs st = ([a], st')"
    and q: "model_query_IPAddress (elevated ctx) (utcnow (store st)) ip_kwargs = Inr conds"
    and dl: "\<forall>row. ip_matches conds row \<longrightarrow> a_deallocated_at row \<noteq> None"
    and inv: "\<forall>row \<in> set (quark_ip_addresses (store st)).
                (row \<in> R0 \<or> a_deallocated_at row = None) \<and>
                (\<forall>u. a_transaction_id row = Some u \<longrightarrow> u \<le> transactions (store st))"
  shows "\<exists>t r. a_transaction_id a = Some t \<and> r \<in> R0 \<and> ip_matches conds r \<and>
           a = reallocate_update_kwargs ctx kw t (utcnow (store st)) r"
  using assms
proof (induction n arbitrary: st)
  case 0
  then show ?case by simp
next
  case (Suc n)
  let ?st1 = "make_entry ''attempt_to_reallocate_ip'' st"
  let ?rows = "quark_ip_addresses (store st)"
  obtain t d1 where c: "transaction_create (store ?st1) = (t, d1)"
    by (cases "transaction_create (store ?st1)")
  then have t: "t = Suc (transactions (store st))"
    and d1: "d1 = (store st)\<lparr>transactions := Suc (transactions (store st))\<rparr>"
    by (auto simp: transaction_create_def store_make_entry)
  let ?u = "reallocate_update_kwargs ctx kw t (utcnow (store st))"
  let ?next = "\<lambda>d. reallocate_ip_loop n ctx kw ip_kwargs (attempt_failed (?st1\<lparr>store := d\<rparr>)) =
                 ([a], st')"
  have step: ?case
    if l: "?next d" and d: "transactions d = t" "utcnow d = utcnow (store st)"
      and rows: "\<forall>row \<in> set (quark_ip_addresses d).
                   (row \<in> R0 \<or> a_deallocated_at row = None) \<and>
                   (\<forall>u. a_transaction_id row = Some u \<longrightarrow> u \<le> t)" for d
  proof -
    have "\<exists>t r. a_transaction_id a = Some t \<and> r \<in> R0 \<and> ip_matches conds r \<and>
           a = reallocate_update_kwargs ctx kw t
                 (utcnow (store (attempt_failed (?st1\<lparr>store := d\<rparr>)))) r"
      using l Suc.prems(2) d rows
      by (intro Suc.IH [OF _ _ Suc.prems(3)]) (simp_all add: store_attempt_failed)
    then show ?thesis using d by (simp add: store_attempt_failed)
  qed
  have rows1: "\<forall>row \<in> set ?rows.
                   (row \<in> R0 \<or> a_deallocated_at row = None) \<and>
                   (\<forall>u. a_transaction_id row = Some u \<longrightarrow> u \<le> t)"
    using Suc.prems(4) t by fastforce
  have q1: "model_query_IPAddress (elevated ctx) (utcnow d1) ip_kwargs = Inr conds"
    using Suc.prems(2) d1 by simp
  obtain m rows where ul: "update_limit (ip_matches conds) ?u ?rows = (m, rows)"
    by (cases "update_limit (ip_matches conds) ?u ?rows")
  let ?d2 = "d1\<lparr>quark_ip_addresses := rows, ip_claims := ip_claims d1 @ [conds]\<rparr>"
  have r: "ip_address_reallocate d1 (elevated ctx)
             (reallocate_update_kwargs ctx kw t (utcnow d1)) ip_kwargs = Inr (m = 1, ?d2)"
    using q1 ul d1 by (simp add: ip_address_reallocate_def)
  have fresh: "\<forall>x \<in> set ?rows. \<not> a_transaction_id x = Some t"
    using Suc.prems(4) t by fastforce
  have upd: "\<forall>x. a_transaction_id (?u x) = Some t"
    by (simp add: reallocate_update_kwargs_def)
  from update_limit_find [OF ul fresh upd]
  consider (zero) "m = 0"
    | (one) r where "m = 1" "r \<in> set ?rows" "ip_matches conds r"
        "find (\<lambda>row. a_transaction_id row = Some t) rows = Some (?u r)"
        "set rows \<subseteq> insert (?u r) (set ?rows)"
    by blast
  then show ?case
  proof cases
    case zero
    with Suc.prems(1) c r show ?thesis by (simp add: Let_def)
  next
    case one
    have rows2: "\<forall>row \<in> set rows.
                   (row \<in> R0 \<or> a_deallocated_at row = None) \<and>
                   (\<forall>u. a_transaction_id row = Some u \<longrightarrow> u \<le> t)"
    proof
      fix row assume "row \<in> set rows"
      with one(5) have "row = ?u r \<or> row \<in> set ?rows" by auto
      then show "(row \<in> R0 \<or> a_deallocated_at row = None) \<and>
                   (\<forall>u. a_transaction_id row = Some u \<longrightarrow> u \<le> t)"
        using rows1 by (auto simp: reallocate_update_kwargs_def)
    qed
    show ?thesis
    proof (cases "ip_address_reallocate_find ?d2 (elevated ctx) t")
      case (Inl e)
      with Suc.prems(1) c r one(1) have "?next ?d2" by (simp add: Let_def)
      then show ?thesis by (rule step) (use d1 t rows2 in simp_all)
    next
      case f: (Inr p')
      obtain found d3 where p': "p' = (found, d3)" by (cases p')
      from ip_address_reallocate_find_store [OF f [unfolded p']] d1
      have d3: "transactions d3 = t" "utcnow d3 = utcnow (store st)"
        "set (quark_ip_addresses d3) \<subseteq> set rows"
        using t by simp_all
      show ?thesis
      proof (cases found)
        case None
        with Suc.prems(1) c r one(1) f p' have "?next d3" by (simp add: Let_def)
        then show ?thesis by (rule step) (use d3 rows2 in auto)
      next
        case (Some b)
        with Suc.prems(1) c r one(1) f p' have b: "b = a"
          by (simp add: Let_def)
        from ip_address_reallocate_find_Some [OF f [unfolded p' Some]] one(4)
        have a: "a = ?u r" by (simp add: b)
        from one(3) Suc.prems(3) have "a_deallocated_at r \<noteq> None" by simp
        with rows1 one(2) have "r \<in> R0" by fastforce
        with a one(3) show ?thesis
          by (auto simp: reallocate_update_kwargs_def)
      qed
    qed
  qed
qed


lemma reallocate_ip_loop_claimed_Inl:
  assumes "reallocate_ip_loop n ctx kw ip_kwargs st = (addresses, st')"
    and "model_query_IPAddress (elevated ctx) (utcnow (store st)) ip_kwargs = Inl e"
  shows "addresses = []"
  using assms
proof (induction n arbitrary: st)
  case 0
  then show ?case by simp
next
  case (Suc n)
  let ?st1 = "make_entry ''attempt_to_reallocate_ip'' st"
  obtain t d1 where c: "transaction_create (store ?st1) = (t, d1)"
    by (cases "transaction_create (store ?st1)")
  then have d1: "d1 = (store st)\<lparr>transactions := Suc (transactions (store st))\<rparr>"
    by (auto simp: transaction_create_def store_make_entry)
  have q: "model_query_IPAddress (elevated ctx) (utcnow d1) ip_kwargs = Inl e"
    using Suc.prems(2) d1 by simp
  then have r: "ip_address_reallocate d1 (elevated ctx)
      (reallocate_update_kwargs ctx kw t (utcnow d1)) ip_kwargs = Inl e"
    by (simp add: ip_address_reallocate_def)
  with Suc.prems(1) c
  have l: "reallocate_ip_loop n ctx kw ip_kwargs (attempt_failed (?st1\<lparr>store := d1\<rparr>)) =
             (addresses, st')"
    by (simp add: Let_def)
  from Suc.IH [OF l] Suc.prems(2) d1 show ?case
    by (simp add: store_attempt_failed)
qed

lemma reallocate_conds_released:
  assumes "model_query_IPAddress (elevated ctx) now
             (reallocate_ip_kwargs net_id reuse_after (version_or_both version) ip_address sub_ids) =
           Inr conds"
  shows "\<forall>row. ip_matches conds row \<longrightarrow> a_deallocated_at row \<noteq> None"
proof -
  from assms have "DeallocatedAtLe (now - reuse_after) \<in> set conds"
    by (auto simp: model_query_reallocate_ip_kwargs split: if_splits)
  then show ?thesis
    by (auto simp: ip_matches_def list_all_iff dest!: bspec split: option.splits)
qed

text \<open>
  C10. Whenever the base method \<open>attempt_to_reallocate_ip\<close> returns, its list has at most one
  element. It is empty, or it holds one address, which is claimed and validated: it is a row
  of the store that carries a transaction id created by this call, its subnet exists and is
  not marked \<open>do_not_use\<close>, and its address is outside the subnet's policy and inside the
  subnet's cidr. When no row of the store carried a transaction id not yet given out, the
  address is a row that the store held at the call and that satisfied the conditions of the
  claim, with the values of the claim set.
\<close>

theorem attempt_to_reallocate_ip_at_most_one:
  assumes "attempt_to_reallocate_ip cf ctx net_id reuse_after version ip_address segment_id
             subnet_ids kw st = (Inr addresses, st')"
  shows "length addresses \<le> 1 \<and>
         (addresses = [] \<or>
          (\<exists>a t. addresses = [a] \<and> a \<in> set (quark_ip_addresses (store st')) \<and>
             a_transaction_id a = Some t \<and>
             transactions (store st) < t \<and> t \<le> transactions (store st') \<and>
             (\<exists>subnet addr.
                subnet_of (store st') a = Some subnet \<and> \<not> s_do_not_use subnet \<and>
                row_address subnet a = Inr addr \<and> \<not> row_in_policy subnet a \<and>
                in_net addr (s_cidr subnet)) \<and>
             ((\<forall>row \<in> set (quark_ip_addresses (store st)).
                 \<forall>u. a_transaction_id row = Some u \<longrightarrow> u \<le> transactions (store st)) \<longrightarrow>
              (\<exists>r conds.
                 r \<in> set (quark_ip_addresses (store st)) \<and>
                 model_query_IPAddress (elevated ctx) (utcnow (store st))
                   (reallocate_ip_kwargs net_id reuse_after (version_or_both version) ip_address
                      (reallocate_sub_ids (store st) net_id segment_id subnet_ids)) = Inr conds \<and>
                 ip_matches conds r \<and>
                 a = reallocate_update_kwargs ctx kw t (utcnow (store st)) r))))"
proof -
  let ?kwargs = "reallocate_ip_kwargs net_id reuse_after (version_or_both version) ip_address
                   (reallocate_sub_ids (store st) net_id segment_id subnet_ids)"
  let ?q = "model_query_IPAddress (elevated ctx) (utcnow (store st)) ?kwargs"
  let ?inv = "\<forall>row \<in> set (quark_ip_addresses (store st)).
                 \<forall>u. a_transaction_id row = Some u \<longrightarrow> u \<le> transactions (store st)"
  consider (none) "addresses = []"
    | (loop) "reallocate_ip_loop (ip_address_retry_max cf) ctx kw ?kwargs st = (addresses, st')"
    using assms by (auto simp: attempt_to_reallocate_ip_def split: if_splits prod.splits)
  then show ?thesis
  proof cases
    case none
    then show ?thesis by simp
  next
    case loop
    from reallocate_ip_loop_validated [OF loop]
    consider (empty) "addresses = []"
      | (one) a t where "addresses = [a]" "a \<in> set (quark_ip_addresses (store st'))"
          "a_transaction_id a = Some t" "transactions (store st) < t"
          "t \<le> transactions (store st')"
          "\<exists>subnet addr.
                subnet_of (store st') a = Some subnet \<and> \<not> s_do_not_use subnet \<and>
                row_address subnet a = Inr addr \<and> \<not> row_in_policy subnet a \<and>
                in_net addr (s_cidr subnet)"
      by blast
    then show ?thesis
    proof cases
      case empty
      then show ?thesis by simp
    next
      case one
      have "\<exists>r conds.
                 r \<in> set (quark_ip_addresses (store st)) \<and> ?q = Inr conds \<and>
                 ip_matches conds r \<and>
                 a = reallocate_update_kwargs ctx kw t (utcnow (store st)) r" if inv: ?inv
      proof (cases ?q)
        case (Inl e)
        from reallocate_ip_loop_no_claim [OF loop Inl] reallocate_ip_loop_claimed_Inl [OF loop Inl]
        show ?thesis using one(1) by simp
      next
        case (Inr conds)
        have i: "\<forall>row \<in> set (quark_ip_addresses (store st)).
                (row \<in> set (quark_ip_addresses (store st)) \<or> a_deallocated_at row = None) \<and>
                (\<forall>u. a_transaction_id row = Some u \<longrightarrow> u \<le> transactions (store st))"
          using inv by simp
        from reallocate_ip_loop_claimed [OF loop [unfolded one(1)] Inr
               reallocate_conds_released [OF Inr] i] one(3) Inr
        show ?thesis by auto
      qed
      with one show ?thesis by simp
    qed
  qed
qed

theorem attempt_to_reallocate_ip_at_most_one_witness:
  "fst (attempt_to_reallocate_ip small_conf tenant_ctx ''net-1'' 60 VerNone None None []
          port_kwargs (engine_on db_released)) =
     Inr [reallocate_update_kwargs tenant_ctx port_kwargs 1 1000 row_10_0_0_3] \<and>
   (\<exists>addresses. fst (attempt_to_reallocate_ip small_conf tenant_ctx ''net-1'' 60 VerNone None None []
                       port_kwargs (engine_on db_released)) = Inr addresses \<and>
                 length addresses \<le> 1) \<and>
   (\<exists>a t subnet addr conds.
      fst (attempt_to_reallocate_ip small_conf tenant_ctx ''net-1'' 60 VerNone None None []
             port_kwargs (engine_on db_released)) = Inr [a] \<and>
      a_transaction_id a = Some t \<and> 0 < t \<and>
      subnet_of (store (snd (attempt_to_reallocate_ip small_conf tenant_ctx ''net-1'' 60 VerNone
                               None None [] port_kwargs (engine_on db_released)))) a =
        Some subnet \<and>
      \<not> s_do_not_use subnet \<and> row_address subnet a = Inr addr \<and> \<not> row_in_policy subnet a \<and>
      in_net addr (s_cidr subnet) \<and>
      model_query_IPAddress (elevated tenant_ctx) 1000
        (reallocate_ip_kwargs ''net-1'' 60 (version_or_both VerNone) None []) = Inr conds \<and>
      ip_matches conds row_10_0_0_3 \<and>
      a = reallocate_update_kwargs tenant_ctx port_kwargs t 1000 row_10_0_0_3)"
proof -
  let ?st = "engine_on db_released"
  let ?r = "attempt_to_reallocate_ip small_conf tenant_ctx ''net-1'' 60 VerNone None None []
              port_kwargs ?st"
  let ?a = "reallocate_update_kwargs tenant_ctx port_kwargs 1 1000 row_10_0_0_3"
  have ok: "fst ?r = Inr [?a]"
    by code_simp
  then have eq: "?r = (Inr [?a], snd ?r)"
    by (simp add: prod_eq_iff)
  have st: "quark_ip_addresses (store ?st) = [row_10_0_0_3]" "transactions (store ?st) = 0"
    "utcnow (store ?st) = 1000" "reallocate_sub_ids (store ?st) ''net-1'' None [] = []"
    by (simp_all add: engine_on_def db_released_def db_dual_def empty_db_def
          reallocate_sub_ids_def truthy_str_def)
  have inv: "\<forall>row \<in> set (quark_ip_addresses (store ?st)).
               \<forall>u. a_transaction_id row = Some u \<longrightarrow> u \<le> transactions (store ?st)"
    by (simp add: st row_10_0_0_3_def)
  from attempt_to_reallocate_ip_at_most_one [OF eq] inv
  have "\<exists>a t subnet addr conds.
      [?a] = [a] \<and> a_transaction_id a = Some t \<and> 0 < t \<and>
      subnet_of (store (snd ?r)) a = Some subnet \<and>
      \<not> s_do_not_use subnet \<and> row_address subnet a = Inr addr \<and> \<not> row_in_policy subnet a \<and>
      in_net addr (s_cidr subnet) \<and>
      model_query_IPAddress (elevated tenant_ctx) 1000
        (reallocate_ip_kwargs ''net-1'' 60 (version_or_both VerNone) None []) = Inr conds \<and>
      ip_matches conds row_10_0_0_3 \<and>
      a = reallocate_update_kwargs tenant_ctx port_kwargs t 1000 row_10_0_0_3"
    unfolding st by fastforce
  with ok show ?thesis by auto
qed

section \<open>The reuse phase of MAC allocation\<close>

text \<open>
  C3, as the code has it. In an attempt of the reuse phase, when the claim reports one row,
  the row re-found by the transaction id is what the attempt, the loop and
  \<open>allocate_mac_address\<close> return, provided the row's range is not marked \<open>do_not_use\<close>
  (and its address is a value \<open>netaddr.EUI\<close> accepts, as the attempt formats it for the
  log before it returns).
\<close>

theorem mac_reallocate_returns_refound:
  assumes c: "transaction_create d = (t, d1)"
    and r: "mac_address_reallocate d1 (elevated ctx) (mac_reallocate_update_kwargs t)
              (mac_reallocate_filter_kwargs reuse_after mac_address) = (True, d2)"
    and f: "mac_address_find d2 (elevated ctx)
              \<lparr>mf_reuse_after = None, mf_deallocated = None, mf_address = None,
               mf_transaction_id = Some t\<rparr> = Some mac"
    and rng: "(case mac_address_range_of d2 mac of None \<Rightarrow> True | Some rng \<Rightarrow> \<not> r_do_not_use rng)"
    and ok: "EUI_ok (m_address mac)"
  shows "mac_reallocate_attempt ctx reuse_after mac_address d = (Return mac, d2) \<and>
         mac_reallocate_loop (Suc n) ctx reuse_after mac_address d = (Some mac, d2) \<and>
         (mac_address_retry_max cf \<noteq> 0 \<and>
          (case mac_address of None \<Rightarrow> True | Some a \<Rightarrow> a = 0 \<or> EUI_ok a) \<longrightarrow>
            allocate_mac_address cf ctx reuse_after mac_address use_forbidden_mac_range d =
              (Inr mac, d2))"
proof -
  have fnd: "mac_address_reallocate_find d2 (elevated ctx) t = (Some mac, d2)"
    using f rng by (auto simp: mac_address_reallocate_find_def split: option.splits)
  have a: "mac_reallocate_attempt ctx reuse_after mac_address d = (Return mac, d2)"
    using c r fnd ok by (simp add: mac_reallocate_attempt_def)
  then have l: "\<And>n. mac_reallocate_loop (Suc n) ctx reuse_after mac_address d = (Some mac, d2)"
    by simp
  have "allocate_mac_address cf ctx reuse_after mac_address use_forbidden_mac_range d =
              (Inr mac, d2)"
    if "mac_address_retry_max cf \<noteq> 0"
      and "(case mac_address of None \<Rightarrow> True | Some a \<Rightarrow> a = 0 \<or> EUI_ok a)"
  proof -
    from that(1) obtain m where m: "mac_address_retry_max cf = Suc m"
      by (cases "mac_address_retry_max cf") auto
    show ?thesis
      using that(2) l [of m] by (auto simp: allocate_mac_address_def m split: option.splits)
  qed
  with a l show ?thesis by blast
qed

text \<open>
  On a store whose only released MAC lies in a range marked \<open>do_not_use\<close>, the claim
  updates one row and the re-find by the transaction id finds that row; the row is then
  deleted, and \<open>allocate_mac_address\<close> ends with \<open>MacAddressGenerationFailure\<close>.
\<close>

theorem mac_reallocate_do_not_use_not_returned: "fst (mac_address_reallocate (snd (transaction_create db_mac_forbidden)) (elevated tenant_ctx)
          (mac_reallocate_update_kwargs 1) (mac_reallocate_filter_kwargs 60 None)) = True \<and>
   mac_address_find
     (snd (mac_address_reallocate (snd (transaction_create db_mac_forbidden)) (elevated tenant_ctx)
          (mac_reallocate_update_kwargs 1) (mac_reallocate_filter_kwargs 60 None)))
     (elevated tenant_ctx)
     \<lparr>mf_reuse_after = None, mf_deallocated = None, mf_address = None, mf_transaction_id = Some 1\<rparr>
     = Some (mac_reallocate_update_kwargs 1 mac_released) \<and>
   fst (allocate_mac_address small_conf tenant_ctx 60 None False db_mac_forbidden) =
     Inl MacAddressGenerationFailure \<and>
   quark_mac_addresses (snd (allocate_mac_address small_conf tenant_ctx 60 None False db_mac_forbidden)) = []"
  by code_simp

theorem mac_reallocate_returns_refound_witness:
  "fst (mac_address_reallocate (snd (transaction_create db_mac_usable)) (elevated tenant_ctx)
          (mac_reallocate_update_kwargs 1) (mac_reallocate_filter_kwargs 60 None)) = True \<and>
   fst (allocate_mac_address small_conf tenant_ctx 60 None False db_mac_usable) =
     Inr (mac_reallocate_update_kwargs 1 mac_released) \<and>
   fst (mac_reallocate_attempt tenant_ctx 60 None db_mac_usable) =
     Return (mac_reallocate_update_kwargs 1 mac_released)"
proof -
  let ?d1 = "snd (transaction_create db_mac_usable)"
  let ?c = "mac_address_reallocate ?d1 (elevated tenant_ctx) (mac_reallocate_update_kwargs 1)
              (mac_reallocate_filter_kwargs 60 None)"
  let ?mac = "mac_reallocate_update_kwargs 1 mac_released"
  have c: "transaction_create db_mac_usable = (1, ?d1)"
    by (simp add: transaction_create_def db_mac_usable_def empty_db_def)
  have r1: "fst ?c = True"
    by code_simp
  then have r: "?c = (True, snd ?c)"
    by (simp add: prod_eq_iff)
  have f: "mac_address_find (snd ?c) (elevated tenant_ctx)
             \<lparr>mf_reuse_after = None, mf_deallocated = None, mf_address = None,
              mf_transaction_id = Some 1\<rparr> = Some ?mac"
    by code_simp
  have rng: "(case mac_address_range_of (snd ?c) ?mac of
                None \<Rightarrow> True | Some rng \<Rightarrow> \<not> r_do_not_use rng)"
    by code_simp
  have ok: "EUI_ok (m_address ?mac)"
    by code_simp
  have cf: "mac_address_retry_max small_conf \<noteq> 0"
    by (simp add: small_conf_def)
  show ?thesis
    using mac_reallocate_returns_refound [OF c r f rng ok, of 0 small_conf False] r1 cf
    by simp
qed

section \<open>The order of the candidate subnets\<close>

text \<open>
  C5, as the code has it. Whatever the order in which the database produces the rows, the
  rows of \<open>subnet_find_ordered_by_most_full\<close> are ordered by \<open>ip_version\<close> ascending and
  then by residual capacity ascending, each row with the count of the allocated addresses
  of its subnet. The query names no third key: the order of rows that agree on both keys is
  the database's.
\<close>

theorem ordered_by_version_then_most_full:
  "sorted_wrt most_full_first
     (subnet_find_ordered_by_most_full d net_id segment_id subnet_id ip_version) \<and>
   (\<forall>row \<in> set (subnet_find_ordered_by_most_full d net_id segment_id subnet_id ip_version).
      snd row = ips_in_subnet d (fst row))"
proof -
  let ?xs = "produced_rows d (filter (\<lambda>s.
               \<not> s_do_not_use s \<and>
               s_network_id s = net_id \<and>
               (case ip_version of None \<Rightarrow> True | Some v \<Rightarrow> s_ip_version s = v) \<and>
               (truthy_str segment_id \<longrightarrow> s_segment_id s = segment_id) \<and>
               s_next_auto_assign_ip s \<noteq> -1 \<and>
               (case subnet_id of
                  None \<Rightarrow> True
                | Some ids \<Rightarrow> ids = [] \<or> s_id s \<in> set ids))
             (quark_subnets d))"
  have "sorted (map (most_full_key d) (sort_key (most_full_key d) ?xs))"
    by (rule sorted_sort_key)
  then have "sorted_wrt (\<lambda>s s'. most_full_key d s \<le> most_full_key d s')
               (sort_key (most_full_key d) ?xs)"
    by (simp add: sorted_map)
  then have "sorted_wrt (\<lambda>s s'. most_full_first (s, ips_in_subnet d s) (s', ips_in_subnet d s'))
               (sort_key (most_full_key d) ?xs)"
    by (rule sorted_wrt_mono_rel [rotated])
       (auto simp: most_full_first_def residual_def most_full_key_def less_eq_prod_def)
  then show ?thesis
    by (auto simp: subnet_find_ordered_by_most_full_def sorted_wrt_map)
qed

theorem ordered_by_version_then_most_full_witness:
  "map (s_id \<circ> fst) (subnet_find_ordered_by_most_full db_three ''net-1'' None None None) =
     [''subnet-4'', ''subnet-b'', ''subnet-6''] \<and>
   map residual (subnet_find_ordered_by_most_full db_three ''net-1'' None None None) =
     [6, 7, 0xffffffffffffffff] \<and>
   sorted_wrt most_full_first
     (subnet_find_ordered_by_most_full db_three ''net-1'' None None None)"
proof -
  have ids: "map (s_id \<circ> fst) (subnet_find_ordered_by_most_full db_three ''net-1'' None None None) =
     [''subnet-4'', ''subnet-b'', ''subnet-6'']"
    by code_simp
  have res: "map residual (subnet_find_ordered_by_most_full db_three ''net-1'' None None None) =
     [6, 7, 0xffffffffffffffff]"
    by code_simp
  show ?thesis
    using ordered_by_version_then_most_full [of db_three "''net-1''" None None None] ids res
    by simp
qed

text \<open>
  Two subnets that agree on both keys come out in the order in which the database produces
  their rows, whichever of their ids is the smaller: on the same tables the one or the
  other comes first. No order on the id breaks the tie.
\<close>

theorem ties_not_ordered_by_id:
  "most_full_key db_tie subnet_a = most_full_key db_tie subnet_b \<and>
   map (s_id \<circ> fst)
     (subnet_find_ordered_by_most_full (db_tie\<lparr>row_order := [''subnet-b'', ''subnet-a'']\<rparr>)
        ''net-1'' None None None) =
     [''subnet-b'', ''subnet-a''] \<and>
   map (s_id \<circ> fst)
     (subnet_find_ordered_by_most_full (db_tie\<lparr>row_order := [''subnet-a'', ''subnet-b'']\<rparr>)
        ''net-1'' None None None) =
     [''subnet-a'', ''subnet-b'']"
  by code_simp

section \<open>The v6 generator\<close>

text \<open>
  C7, as the code has it. With a MAC, the first value of \<open>generate_v6\<close> is the value of the
  address written in the cidr plus the EUI-64 of the MAC, XOR \<open>0x0200000000000000\<close>; the
  value of the address written in the cidr is the network base when the cidr has no host
  bits. For \<open>2001:db8::/64\<close> and \<open>52:54:00:12:34:56\<close> the EUI-64 is \<open>5254:00ff:fe12:3456\<close> and
  the first value is \<open>2001:db8::5054:00ff:fe12:3456\<close>, in which the universal/local bit is
  flipped already.
\<close>

theorem generate_v6_first_with_mac:
  assumes "eui64 mac = Inr e"
  shows "fst (generate_v6_next rnd (Some mac) port_id cidr G_Start g) =
           Inr ((net_value cidr + e) XOR 0x0200000000000000) \<and>
         (net_value cidr = network_base cidr \<longrightarrow>
            fst (generate_v6_next rnd (Some mac) port_id cidr G_Start g) =
              Inr ((network_base cidr + e) XOR 0x0200000000000000))"
  using assms by (simp add: rfc2462_ip_def MAGIC_INT_def)

theorem generate_v6_first_with_mac_witness:
  "eui64 0x525400123456 = Inr 0x525400fffe123456 \<and>
   net_value net_2001_db8_64 = network_base net_2001_db8_64 \<and>
   fst (generate_v6_next counter_random (Some 0x525400123456) 7 net_2001_db8_64 G_Start 0) =
     Inr 0x20010db800000000505400fffe123456"
proof -
  have e: "eui64 0x525400123456 = Inr 0x525400fffe123456"
    by (simp add: eui64_def)
  have nb: "net_value net_2001_db8_64 = network_base net_2001_db8_64"
    by (simp add: network_base_def net_2001_db8_64_def ip_width_def)
  show ?thesis
    using generate_v6_first_with_mac [OF e, of counter_random 7 net_2001_db8_64 0] e nb
    by (simp add: net_2001_db8_64_def)
qed

text \<open>
  The first value for \<open>2001:db8::/64\<close> and \<open>52:54:00:12:34:56\<close> is
  \<open>2001:db8::5054:00ff:fe12:3456\<close> itself, not that address with one more flip of the bit;
  and for the cidr \<open>2001:db8::1/64\<close> the first value ends in \<open>3457\<close>, while the network
  base plus the EUI-64, flipped, ends in \<open>3456\<close>.
\<close>

theorem generate_v6_first_with_mac_counterexample:
  "fst (generate_v6_next counter_random (Some 0x525400123456) 7 net_2001_db8_64 G_Start 0) =
     Inr 0x20010db800000000505400fffe123456 \<and>
   fst (generate_v6_next counter_random (Some 0x525400123456) 7 net_2001_db8_64 G_Start 0) \<noteq>
     Inr (0x20010db800000000505400fffe123456 XOR 0x0200000000000000) \<and>
   fst (generate_v6_next counter_random (Some 0x525400123456) 7 net_2001_db8_1_64 G_Start 0) =
     Inr 0x20010db800000000505400fffe123457 \<and>
   Inr ((network_base net_2001_db8_1_64 + 0x525400fffe123456) XOR 0x0200000000000000) =
     (Inr 0x20010db800000000505400fffe123456 :: error + int)"
  by (simp add: rfc2462_ip_def MAGIC_INT_def eui64_def net_2001_db8_64_def net_2001_db8_1_64_def
        network_base_def ip_width_def)

text \<open>
  Run alone, a fresh generator yields the same values whatever the state of the random
  generator it starts from (and whatever the other generator object is), as it seeds before
  its first draw.
\<close>

lemma run_two_first_only:
  "fst (run_two rnd mac port_id cidr (replicate n True) fa fb g) =
   fst (run_two rnd mac port_id cidr (replicate n True) fa fb' g)"
proof (induction n arbitrary: fa g)
  case 0
  show ?case by simp
next
  case (Suc n)
  obtain v fa' g' where s: "generate_v6_next rnd mac port_id cidr fa g = (v, fa', g')"
    by (cases "generate_v6_next rnd mac port_id cidr fa g") auto
  show ?case
    using Suc.IH [of fa' g'] by (auto simp: s split: prod.splits)
qed

lemma run_two_finished:
  "fst (run_two rnd mac port_id cidr (replicate n True) G_Finished fb g) =
   replicate n (Inl StopIteration)"
  by (induction n) (auto split: prod.splits)

lemma run_two_seeding:
  "fst (run_two rnd mac port_id cidr (replicate n True) (G_Loop R_Start) fb g) =
   fst (run_two rnd mac port_id cidr (replicate n True) (G_Loop R_Start) fb' g')"
proof (cases n)
  case 0
  then show ?thesis by simp
next
  case (Suc m)
  obtain r g1 where d: "getrandbits64 rnd (seed rnd port_id) = (r, g1)"
    by (cases "getrandbits64 rnd (seed rnd port_id)") auto
  show ?thesis
    using run_two_first_only [of rnd mac port_id cidr m "G_Loop (R_Loop (net_value cidr))" fb g1 fb']
    by (auto simp: Suc d split: prod.splits)
qed

lemma generate_v6_alone_deterministic:
  "fst (run_two rnd mac port_id cidr (replicate n True) G_Start fb g) =
   fst (run_two rnd mac port_id cidr (replicate n True) G_Start fb' g')"
proof (cases n)
  case 0
  then show ?thesis by simp
next
  case (Suc m)
  show ?thesis
  proof (cases mac)
    case None
    obtain r g1 where d: "getrandbits64 rnd (seed rnd port_id) = (r, g1)"
      by (cases "getrandbits64 rnd (seed rnd port_id)") auto
    show ?thesis
      using run_two_first_only [of rnd None port_id cidr m "G_Loop (R_Loop (net_value cidr))" fb g1 fb']
      by (auto simp: Suc None d split: prod.splits)
  next
    case (Some a)
    show ?thesis
    proof (cases "rfc2462_ip a cidr")
      case (Inl e)
      show ?thesis
        using run_two_finished [of rnd "Some a" port_id cidr m fb g]
          run_two_finished [of rnd "Some a" port_id cidr m fb' g']
        by (auto simp: Suc Some Inl split: prod.splits)
    next
      case (Inr v)
      show ?thesis
        using run_two_seeding [of rnd "Some a" port_id cidr m fb g fb' g']
        by (auto simp: Suc Some Inr split: prod.splits)
    qed
  qed
qed

text \<open>
  Two generators advanced in turn share the one random state: both seed, the first then
  takes the second draw and the second takes the third draw.
\<close>

lemma generate_v6_alternating:
  "run_two rnd None port_id cidr [True, False, True, False] G_Start G_Start g =
     (case getrandbits64 rnd (seed rnd port_id) of (r1, g1) \<Rightarrow>
      case getrandbits64 rnd g1 of (r2, g2) \<Rightarrow>
      case getrandbits64 rnd g2 of (r3, g3) \<Rightarrow>
        ([Inr ((net_value cidr + r1) XOR MAGIC_INT), Inr ((net_value cidr + r2) XOR MAGIC_INT)],
         [Inr ((net_value cidr + r1) XOR MAGIC_INT), Inr ((net_value cidr + r3) XOR MAGIC_INT)]))"
  by (simp split: prod.splits)

text \<open>
  C6 fails on the code. Two generators for the same \<open>(None, port_id, cidr)\<close>, advanced
  alternately, yield different second values; advanced one after the other they yield the
  same values.
\<close>

theorem generate_v6_interleaved:
  "run_two counter_random None 7 net_2001_db8_64 [True, False, True, False] G_Start G_Start 0 =
     ([Inr 0x20010db8000000000200000000000007, Inr 0x20010db8000000000200000000000008],
      [Inr 0x20010db8000000000200000000000007, Inr 0x20010db8000000000200000000000009]) \<and>
   run_two counter_random None 7 net_2001_db8_64 [True, True, False, False] G_Start G_Start 0 =
     ([Inr 0x20010db8000000000200000000000007, Inr 0x20010db8000000000200000000000008],
      [Inr 0x20010db8000000000200000000000007, Inr 0x20010db8000000000200000000000008])"
  by (simp add: counter_random_def net_2001_db8_64_def MAGIC_INT_def)

section \<open>The create path and the IP policy\<close>

lemma IPAddress_range:
  "IPAddress n = Inr a \<Longrightarrow>
   addr_value a = n \<and>
   ((addr_version a = 4 \<and> 0 \<le> n \<and> n < 2 ^ 32) \<or> (addr_version a = 6 \<and> 2 ^ 32 \<le> n \<and> n < 2 ^ 128))"
  by (auto simp: IPAddress_def split: if_splits)

lemma ipv4_of_IPAddress:
  assumes "IPAddress n = Inr a" "ipv4 a = Inr b"
  shows "addr_version b = 4 \<and> 0 \<le> addr_value b \<and> addr_value b < 2 ^ 32"
  using IPAddress_range [OF assms(1)] assms(2)
  by (auto simp: ipv4_def split: if_splits)

lemma next_auto_ip_v4:
  assumes "next_auto_ip subnet = Inr next_ip" "s_ip_version subnet = 4"
  shows "addr_version next_ip = 4 \<and> 0 \<le> addr_value next_ip \<and> addr_value next_ip < 2 ^ 32"
proof -
  from assms obtain n a where "IPAddress n = Inr a" "ipv4 a = Inr next_ip"
    by (auto simp: next_auto_ip_def split: sum.splits if_splits)
  then show ?thesis by (rule ipv4_of_IPAddress)
qed

lemma row_address_v4:
  assumes "addr_version a = 4" "0 \<le> addr_value a" "addr_value a < 2 ^ 32" "s_ip_version subnet = 4"
    "a_address row = addr_value (ipv6 a)"
  shows "row_address subnet row = Inr a"
  using assms by (simp add: row_address_def ipv6_def IPAddress_def ipv4_def)

lemma row_address_v6:
  assumes "IPAddress v = Inr g" "s_ip_version subnet \<noteq> 4" "a_address row = addr_value (ipv6 g)"
  shows "row_address subnet row = Inr (ipv6 g)"
  using assms by (auto simp: row_address_def ipv6_def IPAddress_def split: if_splits)


lemma ip_address_create_address:
  "ip_address_create d ctx address subnet_id version network_id address_type = Inr (row, d') \<Longrightarrow>
   a_address row = addr_value (ipv6 address)"
  by (auto simp: ip_address_create_def Let_def split: if_splits)

lemma allocate_from_subnet_policy:
  assumes r: "allocate_from_subnet ctx net_id subnet ip_address kw st = (Inr address, st')"
    and n: "\<not> truthy_ip ip_address" and v: "s_ip_version subnet = 4"
  shows "\<not> row_in_policy subnet address"
proof -
  from r n obtain next_ip d' where
    nx: "next_auto_ip subnet = Inr next_ip" and np: "\<not> violates_policy next_ip subnet"
    and cr: "ip_address_create (store st) ctx next_ip (s_id subnet) (s_ip_version subnet) net_id
               (get_address_type kw) = Inr (address, d')"
    by (auto simp: allocate_from_subnet_def split: sum.splits if_splits prod.splits)
  from next_auto_ip_v4 [OF nx v] ip_address_create_address [OF cr]
  have "row_address subnet address = Inr next_ip"
    using v by (simp add: row_address_v4)
  with np show ?thesis
    by (auto simp: row_in_policy_def violates_policy_def in_ipset_def split: option.splits)
qed

lemma ip_address_update_claim_address:
  "ip_address_update_claim d ctx kw address = (updated, d') \<Longrightarrow> a_address updated = a_address address"
  by (auto simp: ip_address_update_claim_def Let_def)

lemma ip_address_find_address:
  assumes "ip_address_find d ctx (v6_find_filters net_id a reuse_after subnet) = Inr (Some address)"
  shows "a_address address = addr_value (ipv6 a)"
proof -
  from assms obtain conds where
    q: "model_query_IPAddress ctx (utcnow d) (v6_find_filters net_id a reuse_after subnet) = Inr conds"
    and f: "find (ip_matches conds) (quark_ip_addresses d) = Some address"
    by (auto simp: ip_address_find_def split: sum.splits)
  from q have "AddressIn [addr_value (ipv6 a)] \<in> set conds"
    by (auto simp: model_query_IPAddress_def v6_find_filters_def split: if_splits)
  moreover from f have "ip_matches conds address" by (auto simp: find_Some_iff)
  ultimately show ?thesis by (auto simp: ip_matches_def list_all_iff)
qed

lemma ipv6_idem: "ipv6 (ipv6 a) = ipv6 a"
  by (simp add: ipv6_def)

lemma allocate_v6_loop_policy:
  assumes "allocate_v6_loop n rnd ctx net_id subnet mac port_id reuse_after kw frame st = (Inr address, st')"
    and "s_ip_version subnet \<noteq> 4"
  shows "\<not> row_in_policy subnet address"
  using assms
proof (induction n arbitrary: frame st)
  case 0
  then show ?case by (auto split: prod.splits sum.splits)
next
  case (Suc n)
  obtain r frame' g where s: "generate_v6_next rnd mac port_id (s_cidr subnet) frame (random_state st) = (r, frame', g)"
    by (cases "generate_v6_next rnd mac port_id (s_cidr subnet) frame (random_state st)") auto
  from Suc.prems(1) obtain v where r: "r = Inr v" by (cases r) (auto simp: s)
  from Suc.prems(1) obtain generated where gen: "IPAddress v = Inr generated"
    by (cases "IPAddress v") (auto simp: s r)
  let ?hit = "(case get_ip_policy_cidrs subnet of
                None \<Rightarrow> False
              | Some ip_policy_cidrs \<Rightarrow> in_ipset (ipv6 generated) ip_policy_cidrs)"
  show ?case
  proof (cases ?hit)
    case True
    with Suc.prems(1) have "allocate_v6_loop n rnd ctx net_id subnet mac port_id reuse_after kw frame'
                   (st\<lparr>random_state := g\<rparr>) = (Inr address, st')"
      by (simp add: s r gen)
    from Suc.IH [OF this Suc.prems(2)] show ?thesis .
  next
    case False
    show ?thesis
    proof (cases "ip_address_find (store st) ctx (v6_find_filters net_id (ipv6 generated) reuse_after subnet)")
      case (Inl e)
      with Suc.prems(1) False show ?thesis by (simp add: s r gen)
    next
      case (Inr found)
      show ?thesis
      proof (cases found)
        case None
        show ?thesis
        proof (cases "ip_address_create (store st) ctx (ipv6 generated) (s_id subnet)
                  (s_ip_version subnet) net_id (get_address_type kw)")
          case (Inl e)
          with Suc.prems(1) False Inr None
          have "allocate_v6_loop n rnd ctx net_id subnet mac port_id reuse_after kw frame'
                   (st\<lparr>random_state := g\<rparr>) = (Inr address, st')"
            by (simp add: s r gen)
          from Suc.IH [OF this Suc.prems(2)] show ?thesis .
        next
          case cr: (Inr p)
          obtain row d' where p: "p = (row, d')" by (cases p)
          from Suc.prems(1) False Inr None cr p have "address = row"
            by (simp add: s r gen)
          with ip_address_create_address [OF cr [unfolded p]]
          have "a_address address = addr_value (ipv6 generated)" by (simp add: ipv6_idem)
          from row_address_v6 [OF gen Suc.prems(2) this] False show ?thesis
            by (auto simp: row_in_policy_def split: option.splits)
        qed
      next
        case (Some existing)
        obtain updated d' where u: "ip_address_update_claim (store st) ctx kw existing = (updated, d')"
          by (cases "ip_address_update_claim (store st) ctx kw existing") auto
        from Suc.prems(1) False Inr Some u have "address = updated"
          by (simp add: s r gen)
        with ip_address_update_claim_address [OF u] ip_address_find_address [OF Inr [unfolded Some]]
        have "a_address address = addr_value (ipv6 generated)" by (simp add: ipv6_idem)
        from row_address_v6 [OF gen Suc.prems(2) this] False show ?thesis
          by (auto simp: row_in_policy_def split: option.splits)
      qed
    qed
  qed
qed

text \<open>
  C2, as the code has it. When no address is requested, the address that the create path
  returns (\<open>_allocate_from_subnet\<close> for a subnet of version 4, \<open>_allocate_from_v6_subnet\<close>
  for any other, as \<open>_allocate_ips_from_subnets\<close> dispatches) is not in the policy of its
  subnet, read back the way the reuse path reads an address for its policy check.
\<close>

theorem create_path_respects_policy:
  assumes "\<not> truthy_ip ip_address"
  shows "(s_ip_version subnet = 4 \<and>
          allocate_from_subnet ctx net_id subnet ip_address kw st = (Inr address, st') \<longrightarrow>
            \<not> row_in_policy subnet address) \<and>
         (s_ip_version subnet \<noteq> 4 \<and>
          allocate_from_v6_subnet rnd cf ctx net_id subnet port_id reuse_after ip_address kw st =
            (Inr address, st') \<longrightarrow>
            \<not> row_in_policy subnet address)"
  using assms allocate_from_subnet_policy [of ctx net_id subnet ip_address kw st address st']
    allocate_v6_loop_policy [of "nat (v6_allocation_attempts cf)" rnd ctx net_id subnet
      "map_option m_address (kw_mac_address kw)" port_id reuse_after kw G_Start st address st']
  by (auto simp: allocate_from_v6_subnet_def)

theorem create_path_respects_policy_witness:
  "\<not> truthy_ip None \<and>
   s_ip_version subnet_v4_selected = 4 \<and>
   map_sum id a_address
     (fst (allocate_from_subnet tenant_ctx ''net-1'' subnet_v4_selected None port_kwargs
             (engine_on db_v4))) = Inr 0xFFFF0A000001 \<and>
   s_ip_version subnet_v6 \<noteq> 4 \<and>
   map_sum id a_address
     (fst (allocate_from_v6_subnet counter_random small_conf tenant_ctx ''net-1'' subnet_v6 7 60
             None port_kwargs (engine_on db_dual))) = Inr 0x20010db800000000505400fffe123456 \<and>
   (\<exists>address. fst (allocate_from_subnet tenant_ctx ''net-1'' subnet_v4_selected None port_kwargs
                     (engine_on db_v4)) = Inr address \<and>
              \<not> row_in_policy subnet_v4_selected address) \<and>
   (\<exists>address. fst (allocate_from_v6_subnet counter_random small_conf tenant_ctx ''net-1''
                     subnet_v6 7 60 None port_kwargs (engine_on db_dual)) = Inr address \<and>
              \<not> row_in_policy subnet_v6 address)"
proof -
  let ?r4 = "allocate_from_subnet tenant_ctx ''net-1'' subnet_v4_selected None port_kwargs
               (engine_on db_v4)"
  let ?r6 = "allocate_from_v6_subnet counter_random small_conf tenant_ctx ''net-1'' subnet_v6 7 60
               None port_kwargs (engine_on db_dual)"
  have n: "\<not> truthy_ip None" by (simp add: truthy_ip_def)
  have v4: "s_ip_version subnet_v4_selected = 4" by (simp add: subnet_v4_selected_def subnet_v4_def)
  have v6: "s_ip_version subnet_v6 \<noteq> 4" by (simp add: subnet_v6_def)
  have a4: "map_sum id a_address (fst ?r4) = Inr 0xFFFF0A000001" by code_simp
  have a6: "map_sum id a_address (fst ?r6) = Inr 0x20010db800000000505400fffe123456" by code_simp
  from a4 obtain row4 where r4: "fst ?r4 = Inr row4" by (cases "fst ?r4") auto
  from a6 obtain row6 where r6: "fst ?r6 = Inr row6" by (cases "fst ?r6") auto
  have e4: "?r4 = (Inr row4, snd ?r4)" using r4 by (simp add: prod_eq_iff)
  have e6: "?r6 = (Inr row6, snd ?r6)" using r6 by (simp add: prod_eq_iff)
  have "\<not> row_in_policy subnet_v4_selected row4"
    using create_path_respects_policy [OF n, of subnet_v4_selected tenant_ctx "''net-1''"
        port_kwargs "engine_on db_v4" row4 "snd ?r4"] v4 e4 by blast
  moreover have "\<not> row_in_policy subnet_v6 row6"
    using create_path_respects_policy [OF n, of subnet_v6 tenant_ctx "''net-1''" port_kwargs
        "engine_on db_dual" row6 "snd ?r6" counter_random small_conf 7 60] v6 e6 by blast
  ultimately show ?thesis using n v4 v6 a4 a6 r4 r6 by blast
qed

text \<open>
  With \<open>10.0.0.7\<close> requested, \<open>_allocate_from_subnet\<close> returns that address although the
  policy of the subnet excludes it, and so does \<open>allocate_ip_address\<close>.
\<close>

theorem explicit_ip_bypasses_policy:
  "truthy_ip (Some ip_10_0_0_7) \<and>
   violates_policy ip_10_0_0_7 subnet_v4 \<and>
   (case fst (allocate_from_subnet tenant_ctx ''net-1'' subnet_v4 (Some ip_10_0_0_7) port_kwargs
                (engine_on db_v4)) of
      Inr address \<Rightarrow> a_address address = 0xFFFF0A000007 \<and> row_in_policy subnet_v4 address
    | Inl e \<Rightarrow> False) \<and>
   fst (allocate_ip_address counter_random small_conf ANY tenant_ctx ''net-1'' 7 60 None None
          [ip_10_0_0_7] [] port_kwargs (engine_on db_v4)) = Inr () \<and>
   map a_address
     (new_addresses
        (snd (allocate_ip_address counter_random small_conf ANY tenant_ctx ''net-1'' 7 60 None None
                [ip_10_0_0_7] [] port_kwargs (engine_on db_v4)))) = [0xFFFF0A000007]"
  by code_simp

section \<open>Insert conflicts and the retry loop\<close>

lemma allocate_from_subnet_entries:
  "entries (snd (allocate_from_subnet ctx net_id subnet ip_address kw st)) = entries st"
  by (auto simp: allocate_from_subnet_def split: sum.splits prod.splits)

lemma allocate_v6_loop_entries:
  "entries (snd (allocate_v6_loop n rnd ctx net_id subnet mac port_id reuse_after kw frame st)) =
   entries st"
proof (induction n arbitrary: frame st)
  case 0
  show ?case by (auto split: prod.splits sum.splits)
next
  case (Suc n)
  show ?case
    by (auto simp: Suc.IH split: prod.splits sum.splits option.splits)
qed

lemma allocate_from_v6_subnet_entries:
  "entries (snd (allocate_from_v6_subnet rnd cf ctx net_id subnet port_id reuse_after ip_address kw st)) =
   entries st"
  by (simp add: allocate_from_v6_subnet_def allocate_from_subnet_entries allocate_v6_loop_entries)

lemma allocate_ips_from_subnets_entries:
  "entries (snd (allocate_ips_from_subnets rnd cf ctx net_id chosen port_id reuse_after ip_address kw st)) =
   entries st"
proof (induction chosen arbitrary: st)
  case Nil
  show ?case by simp
next
  case (Cons s chosen)
  show ?case
  proof (cases s)
    case None
    then show ?thesis by (simp add: Cons.IH)
  next
    case (Some subnet)
    let ?r = "(if s_ip_version subnet = 4
              then allocate_from_subnet ctx net_id subnet ip_address kw st
            else allocate_from_v6_subnet rnd cf ctx net_id subnet port_id reuse_after
                   ip_address kw st)"
    have e: "entries (snd ?r) = entries st"
      by (simp add: allocate_from_subnet_entries allocate_from_v6_subnet_entries)
    obtain x st' where r: "?r = (x, st')" by (cases ?r)
    with e have e': "entries st' = entries st" by simp
    show ?thesis
      using r e' by (cases x) (simp_all add: Some Cons.IH)
  qed
qed

lemma try_allocate_ip_address_attempts:
  "length (entries (snd (try_allocate_ip_address n rnd cf strat ctx net_id port_id reuse_after
                           segment_id version kw ip_addr sub st))) \<le> length (entries st) + n"
proof (induction n arbitrary: st)
  case 0
  show ?case by simp
next
  case (Suc n)
  let ?st1 = "make_entry ''_try_allocate_ip_address'' st"
  have l1: "length (entries ?st1) = Suc (length (entries st))" by (simp add: make_entry_def)
  obtain c d' where c: "try_allocate_subnets strat net_id version segment_id ip_addr sub ?st1 = (c, d')"
    by (cases "try_allocate_subnets strat net_id version segment_id ip_addr sub ?st1")
  show ?case
  proof (cases c)
    case (Inl e)
    then show ?thesis using c l1 by simp
  next
    case (Inr chosen)
    obtain x st2 where a: "allocate_ips_from_subnets rnd cf ctx net_id chosen port_id reuse_after
                  ip_addr kw (?st1\<lparr>store := d'\<rparr>) = (x, st2)"
      by (cases "allocate_ips_from_subnets rnd cf ctx net_id chosen port_id reuse_after
                  ip_addr kw (?st1\<lparr>store := d'\<rparr>)")
    have e2: "length (entries st2) = Suc (length (entries st))"
      using allocate_ips_from_subnets_entries [of rnd cf ctx net_id chosen port_id reuse_after
          ip_addr kw "?st1\<lparr>store := d'\<rparr>"] a l1 by simp
    show ?thesis
    proof (cases x)
      case (Inl e)
      show ?thesis
        using Suc.IH [of "attempt_failed st2"] e2
        by (simp add: c Inr a Inl length_attempt_failed)
    next
      case r: (Inr u)
      show ?thesis using e2 by (simp add: c Inr a r)
    qed
  qed
qed

text \<open>
  C8, as the code has it. When the insert of \<open>_allocate_from_subnet\<close> fails, the method
  raises \<open>IpAddressInUse\<close> if the requested address is true in Python, that is, an address
  other than the zero address was supplied, and \<open>IPAddressRetryableFailure\<close> otherwise. In
  \<open>_try_allocate_ip_address\<close>, an attempt whose allocation raises
  \<open>IPAddressRetryableFailure\<close> is marked failed and the next attempt follows, an attempt
  whose allocation raises \<open>IpAddressInUse\<close> ends the call with that error, and the call makes
  at most \<open>ip_address_retry_max\<close> attempts (one log entry each).
\<close>

theorem insert_failure_retried_or_in_use:
  "((if truthy_ip ip_address then Inr (the ip_address) else next_auto_ip subnet) = Inr next_ip \<and>
    \<not> (violates_policy next_ip subnet \<and> \<not> truthy_ip ip_address) \<and>
    ip_address_create (store st) ctx next_ip (s_id subnet) (s_ip_version subnet) net_id
      (get_address_type kw) = Inl e \<longrightarrow>
      allocate_from_subnet ctx net_id subnet ip_address kw st =
        (Inl (if truthy_ip ip_address then IpAddressInUse else IPAddressRetryableFailure), st)) \<and>
   (try_allocate_subnets strat net_id version segment_id ip_addr sub
      (make_entry ''_try_allocate_ip_address'' st) = (Inr chosen, d') \<and>
    allocate_ips_from_subnets rnd cf ctx net_id chosen port_id reuse_after ip_addr kw
      ((make_entry ''_try_allocate_ip_address'' st)\<lparr>store := d'\<rparr>) = (Inl e', st2) \<longrightarrow>
      (e' = IPAddressRetryableFailure \<longrightarrow>
         try_allocate_ip_address (Suc n) rnd cf strat ctx net_id port_id reuse_after segment_id
           version kw ip_addr sub st =
         try_allocate_ip_address n rnd cf strat ctx net_id port_id reuse_after segment_id
           version kw ip_addr sub (attempt_failed st2)) \<and>
      (e' = IpAddressInUse \<longrightarrow>
         try_allocate_ip_address (Suc n) rnd cf strat ctx net_id port_id reuse_after segment_id
           version kw ip_addr sub st = (Inl IpAddressInUse, st2))) \<and>
   length (entries (snd (try_allocate_ip_address (ip_address_retry_max cf) rnd cf strat ctx net_id
                           port_id reuse_after segment_id version kw ip_addr sub st)))
     \<le> length (entries st) + ip_address_retry_max cf"
proof -
  have a: "(if truthy_ip ip_address then Inr (the ip_address) else next_auto_ip subnet) = Inr next_ip \<and>
    \<not> (violates_policy next_ip subnet \<and> \<not> truthy_ip ip_address) \<and>
    ip_address_create (store st) ctx next_ip (s_id subnet) (s_ip_version subnet) net_id
      (get_address_type kw) = Inl e \<longrightarrow>
      allocate_from_subnet ctx net_id subnet ip_address kw st =
        (Inl (if truthy_ip ip_address then IpAddressInUse else IPAddressRetryableFailure), st)"
    by (auto simp: allocate_from_subnet_def)
  have b: "try_allocate_subnets strat net_id version segment_id ip_addr sub
      (make_entry ''_try_allocate_ip_address'' st) = (Inr chosen, d') \<and>
    allocate_ips_from_subnets rnd cf ctx net_id chosen port_id reuse_after ip_addr kw
      ((make_entry ''_try_allocate_ip_address'' st)\<lparr>store := d'\<rparr>) = (Inl e', st2) \<longrightarrow>
      (e' = IPAddressRetryableFailure \<longrightarrow>
         try_allocate_ip_address (Suc n) rnd cf strat ctx net_id port_id reuse_after segment_id
           version kw ip_addr sub st =
         try_allocate_ip_address n rnd cf strat ctx net_id port_id reuse_after segment_id
           version kw ip_addr sub (attempt_failed st2)) \<and>
      (e' = IpAddressInUse \<longrightarrow>
         try_allocate_ip_address (Suc n) rnd cf strat ctx net_id port_id reuse_after segment_id
           version kw ip_addr sub st = (Inl IpAddressInUse, st2))"
    by (simp add: is_IPAddressRetryableFailure_def)
  from a b try_allocate_ip_address_attempts show ?thesis by blast
qed

theorem insert_failure_retried_or_in_use_witness:
  "fst (allocate_from_subnet tenant_ctx ''net-1'' subnet_v4_selected None port_kwargs
          (engine_on db_taken)) = Inl IPAddressRetryableFailure \<and>
   fst (allocate_from_subnet tenant_ctx ''net-1'' subnet_v4_selected (Some ip_10_0_0_1) port_kwargs
          (engine_on db_taken)) = Inl IpAddressInUse \<and>
   fst (try_allocate_ip_address 2 counter_random small_conf ANY tenant_ctx ''net-1'' 7 60 None
          None port_kwargs None None (engine_on db_taken)) = Inr () \<and>
   entries (snd (try_allocate_ip_address 2 counter_random small_conf ANY tenant_ctx ''net-1'' 7 60
                   None None port_kwargs None None (engine_on db_taken))) =
     [(''_try_allocate_ip_address'', False), (''_try_allocate_ip_address'', True)] \<and>
   fst (try_allocate_ip_address 2 counter_random small_conf ANY tenant_ctx ''net-1'' 7 60 None
          None port_kwargs (Some ip_10_0_0_1) None (engine_on db_taken)) = Inl IpAddressInUse"
proof -
  let ?st = "engine_on db_taken"
  let ?st1 = "make_entry ''_try_allocate_ip_address'' ?st"
  \<comment> \<open>the insert fails, no address requested\<close>
  have n1: "(if truthy_ip None then Inr (the None) else next_auto_ip subnet_v4_selected) =
              Inr ip_10_0_0_1"
    by code_simp
  have p1: "\<not> (violates_policy ip_10_0_0_1 subnet_v4_selected \<and> \<not> truthy_ip None)"
    by code_simp
  have c1: "ip_address_create (store ?st) tenant_ctx ip_10_0_0_1 (s_id subnet_v4_selected)
              (s_ip_version subnet_v4_selected) ''net-1'' (get_address_type port_kwargs) =
            Inl DBDuplicateEntry"
    by code_simp
  \<comment> \<open>the first attempt of the loop, no address requested\<close>
  let ?c = "try_allocate_subnets ANY ''net-1'' None None None None ?st1"
  let ?a = "allocate_ips_from_subnets counter_random small_conf tenant_ctx ''net-1''
              (projr (fst ?c)) 7 60 None port_kwargs (?st1\<lparr>store := snd ?c\<rparr>)"
  have "\<not> isl (fst ?c)" by code_simp
  then have ch: "?c = (Inr (projr (fst ?c)), snd ?c)"
    by (simp add: prod_eq_iff)
  have "fst ?a = Inl IPAddressRetryableFailure" by code_simp
  then have al: "?a = (Inl IPAddressRetryableFailure, snd ?a)"
    by (simp add: prod_eq_iff)
  have r: "fst (try_allocate_ip_address 1 counter_random small_conf ANY tenant_ctx ''net-1'' 7 60
                  None None port_kwargs None None (attempt_failed (snd ?a))) = Inr ()"
    by code_simp
  have en: "entries (snd (try_allocate_ip_address 1 counter_random small_conf ANY tenant_ctx
                            ''net-1'' 7 60 None None port_kwargs None None
                            (attempt_failed (snd ?a)))) =
              [(''_try_allocate_ip_address'', False), (''_try_allocate_ip_address'', True)]"
    by code_simp
  note t1 = insert_failure_retried_or_in_use [of None subnet_v4_selected ip_10_0_0_1 ?st
      tenant_ctx "''net-1''" port_kwargs DBDuplicateEntry ANY None None None None
      "projr (fst ?c)" "snd ?c" counter_random small_conf 7 60 IPAddressRetryableFailure
      "snd ?a" "Suc 0"]
  \<comment> \<open>the same with 10.0.0.1 requested\<close>
  have n2: "(if truthy_ip (Some ip_10_0_0_1) then Inr (the (Some ip_10_0_0_1))
             else next_auto_ip subnet_v4_selected) = Inr ip_10_0_0_1"
    by code_simp
  have p2: "\<not> (violates_policy ip_10_0_0_1 subnet_v4_selected \<and> \<not> truthy_ip (Some ip_10_0_0_1))"
    by code_simp
  let ?c' = "try_allocate_subnets ANY ''net-1'' None None (Some ip_10_0_0_1) None ?st1"
  let ?a' = "allocate_ips_from_subnets counter_random small_conf tenant_ctx ''net-1''
              (projr (fst ?c')) 7 60 (Some ip_10_0_0_1) port_kwargs (?st1\<lparr>store := snd ?c'\<rparr>)"
  have "\<not> isl (fst ?c')" by code_simp
  then have ch': "?c' = (Inr (projr (fst ?c')), snd ?c')"
    by (simp add: prod_eq_iff)
  have "fst ?a' = Inl IpAddressInUse" by code_simp
  then have al': "?a' = (Inl IpAddressInUse, snd ?a')"
    by (simp add: prod_eq_iff)
  note t2 = insert_failure_retried_or_in_use [of "Some ip_10_0_0_1" subnet_v4_selected ip_10_0_0_1
      ?st tenant_ctx "''net-1''" port_kwargs DBDuplicateEntry ANY None None "Some ip_10_0_0_1"
      None "projr (fst ?c')" "snd ?c'" counter_random small_conf 7 60 IpAddressInUse
      "snd ?a'" "Suc 0"]
  have two: "(2::nat) = Suc (Suc 0)" by simp
  have A1: "fst (allocate_from_subnet tenant_ctx ''net-1'' subnet_v4_selected None port_kwargs ?st) =
              Inl IPAddressRetryableFailure"
    using t1 n1 p1 c1 by (simp add: truthy_ip_def)
  have A2: "fst (allocate_from_subnet tenant_ctx ''net-1'' subnet_v4_selected (Some ip_10_0_0_1)
                   port_kwargs ?st) = Inl IpAddressInUse"
    using t2 n2 p2 c1 by (simp add: truthy_ip_def ip_10_0_0_1_def)
  have B1: "try_allocate_ip_address 2 counter_random small_conf ANY tenant_ctx ''net-1'' 7 60 None
              None port_kwargs None None ?st =
            try_allocate_ip_address 1 counter_random small_conf ANY tenant_ctx ''net-1'' 7 60 None
              None port_kwargs None None (attempt_failed (snd ?a))"
    using t1 ch al unfolding two One_nat_def by blast
  have B2: "try_allocate_ip_address 2 counter_random small_conf ANY tenant_ctx ''net-1'' 7 60 None
              None port_kwargs (Some ip_10_0_0_1) None ?st = (Inl IpAddressInUse, snd ?a')"
    using t2 ch' al' unfolding two by blast
  show ?thesis
    using A1 A2 r en by (simp only: B1 B2 fst_conv)
qed

text \<open>
  With the address \<open>0.0.0.0\<close> supplied, which is false in Python, the method takes its
  candidate from the cursor as if no address were requested, and the failed insert of
  \<open>10.0.0.1\<close> raises \<open>IPAddressRetryableFailure\<close>, not \<open>IpAddressInUse\<close>; the loop of
  \<open>_try_allocate_ip_address\<close> retries.
\<close>

theorem insert_failure_zero_address_retried:
  "\<not> truthy_ip (Some ip_0_0_0_0) \<and>
   fst (allocate_from_subnet tenant_ctx ''net-1'' subnet_v4_selected (Some ip_0_0_0_0) port_kwargs
          (engine_on db_taken)) = Inl IPAddressRetryableFailure \<and>
   ip_address_create (store (engine_on db_taken)) tenant_ctx ip_10_0_0_1 (s_id subnet_v4_selected)
     (s_ip_version subnet_v4_selected) ''net-1'' (get_address_type port_kwargs) =
     Inl DBDuplicateEntry \<and>
   fst (try_allocate_ip_address 2 counter_random small_conf ANY tenant_ctx ''net-1'' 7 60 None
          None port_kwargs (Some ip_0_0_0_0) None (engine_on db_taken)) = Inr ()"
  by code_simp

end
